theory Spec2Isabelle
  imports Main "HOL-Library.Sublist" "HOL-Library.Word"
begin

section \<open>Go library functions used by the provider\<close>

subsection \<open>Package strings\<close>

text \<open>
  \<^verbatim>\<open>strings.Split(s, sep)\<close> for a non-empty separator cuts \<open>s\<close> at the leftmost
  occurrence of \<open>sep\<close>, keeps what stands before it and goes on behind it; the rest of
  the string is the last part. \<open>splitOn sep part s\<close> scans \<open>s\<close> with \<open>part\<close> the
  bytes read since the last cut. With an empty separator Go cuts after every UTF-8
  sequence; on single-byte characters that is after every byte.
\<close>

function splitOn :: "string \<Rightarrow> string \<Rightarrow> string \<Rightarrow> string list" where
  "splitOn sep part [] = [part]"
| "splitOn sep part (c # s) =
     (if sep \<noteq> [] \<and> prefix sep (c # s)
      then part # splitOn sep [] (drop (length sep) (c # s))
      else splitOn sep (part @ [c]) s)"
  by pat_completeness auto
termination
  by (relation "measure (\<lambda>(sep, part, s). length s)") auto

definition strings_Split :: "string \<Rightarrow> string \<Rightarrow> string list" where
  "strings_Split s sep = (if sep = [] then map (\<lambda>c. [c]) s else splitOn sep [] s)"

text \<open>\<^verbatim>\<open>strings.Join(elems, sep)\<close>.\<close>

fun strings_Join :: "string list \<Rightarrow> string \<Rightarrow> string" where
  "strings_Join [] sep = []"
| "strings_Join [x] sep = x"
| "strings_Join (x # y # ys) sep = x @ sep @ strings_Join (y # ys) sep"

text \<open>
  \<^verbatim>\<open>strings.EqualFold\<close> compares under Unicode simple case folding. On ASCII that is
  equality after mapping \<open>A..Z\<close> to \<open>a..z\<close>; bytes from 128 on are compared as they are.
\<close>

definition toLower :: "char \<Rightarrow> char" where
  "toLower c =
     (case map_of (zip ''ABCDEFGHIJKLMNOPQRSTUVWXYZ'' ''abcdefghijklmnopqrstuvwxyz'') c of
        Some l \<Rightarrow> l
      | None \<Rightarrow> c)"

definition strings_EqualFold :: "string \<Rightarrow> string \<Rightarrow> bool" where
  "strings_EqualFold s t = (map toLower s = map toLower t)"

subsection \<open>The verb %q of package fmt\<close>

text \<open>
  \<^verbatim>\<open>fmt.Sprintf("%q", s)\<close> is \<^verbatim>\<open>strconv.Quote(s)\<close>: the string in double quotes, with
  Go escapes for the quote, the backslash and the control characters. Printable ASCII
  stands for itself. Bytes from 128 on are kept (Go keeps the printable runes they
  encode).
\<close>

definition hexDigit :: "nat \<Rightarrow> char" where
  "hexDigit n = ''0123456789abcdef'' ! (n mod 16)"

definition quoteByte :: "char \<Rightarrow> string" where
  "quoteByte c = (let n = (of_char c :: nat) in
     if n = 34 then [CHR 0x5C, CHR 0x22]
     else if n = 92 then [CHR 0x5C, CHR 0x5C]
     else if n = 7 then [CHR 0x5C, CHR ''a'']
     else if n = 8 then [CHR 0x5C, CHR ''b'']
     else if n = 12 then [CHR 0x5C, CHR ''f'']
     else if n = 10 then [CHR 0x5C, CHR ''n'']
     else if n = 13 then [CHR 0x5C, CHR ''r'']
     else if n = 9 then [CHR 0x5C, CHR ''t'']
     else if n = 11 then [CHR 0x5C, CHR ''v'']
     else if n < 32 \<or> n = 127 then [CHR 0x5C, CHR ''x'', hexDigit (n div 16), hexDigit (n mod 16)]
     else [c])"

definition strconv_Quote :: "string \<Rightarrow> string" where
  "strconv_Quote s = [CHR 0x22] @ concat (map quoteByte s) @ [CHR 0x22]"

section \<open>Terraform plugin framework values\<close>

text \<open>
  A framework value (\<^verbatim>\<open>types.String\<close>, \<^verbatim>\<open>types.Bool\<close>, \<^verbatim>\<open>types.Int64\<close>, \<^verbatim>\<open>types.List\<close>,
  \<^verbatim>\<open>types.Map\<close>) is null, unknown or known; the zero value of the Go struct is null.
\<close>

datatype 'a tfval = ValueStateNull | ValueStateUnknown | ValueStateKnown 'a

type_synonym types_String = "string tfval"
type_synonym types_Bool = "bool tfval"
type_synonym types_Int64 = "64 word tfval"

text \<open>The values of interface \<^verbatim>\<open>attr.Value\<close> that occur as list and map elements.\<close>

datatype attr_Value = AttrString types_String | AttrBool types_Bool

type_synonym types_List = "attr_Value list tfval"
type_synonym types_Map = "(string \<rightharpoonup> attr_Value) tfval"

definition StringValue :: "string \<Rightarrow> types_String" where
  "StringValue s = ValueStateKnown s"

definition StringPointerValue :: "string option \<Rightarrow> types_String" where
  "StringPointerValue p = (case p of None \<Rightarrow> ValueStateNull | Some s \<Rightarrow> ValueStateKnown s)"

definition BoolPointerValue :: "bool option \<Rightarrow> types_Bool" where
  "BoolPointerValue p = (case p of None \<Rightarrow> ValueStateNull | Some b \<Rightarrow> ValueStateKnown b)"

definition Int64Value :: "64 word \<Rightarrow> types_Int64" where
  "Int64Value i = ValueStateKnown i"

definition Int64PointerValue :: "64 word option \<Rightarrow> types_Int64" where
  "Int64PointerValue p = (case p of None \<Rightarrow> ValueStateNull | Some i \<Rightarrow> ValueStateKnown i)"

text \<open>\<^verbatim>\<open>ValueString\<close> is the empty string for a null or unknown value.\<close>

definition ValueString :: "types_String \<Rightarrow> string" where
  "ValueString v = (case v of ValueStateKnown s \<Rightarrow> s | _ \<Rightarrow> [])"

text \<open>\<^verbatim>\<open>ValueStringPointer\<close> is nil for null, and points to the empty string for unknown.\<close>

definition ValueStringPointer :: "types_String \<Rightarrow> string option" where
  "ValueStringPointer v =
     (case v of ValueStateNull \<Rightarrow> None | ValueStateUnknown \<Rightarrow> Some [] | ValueStateKnown s \<Rightarrow> Some s)"

text \<open>
  \<^verbatim>\<open>String()\<close> of an \<^verbatim>\<open>attr.Value\<close> is the rendering for logs: a known string is quoted
  with \<^verbatim>\<open>%q\<close>, a known bool is printed with \<^verbatim>\<open>%t\<close>.
\<close>

definition attr_String :: "attr_Value \<Rightarrow> string" where
  "attr_String v =
     (case v of
        AttrString ValueStateNull \<Rightarrow> ''<null>''
      | AttrString ValueStateUnknown \<Rightarrow> ''<unknown>''
      | AttrString (ValueStateKnown s) \<Rightarrow> strconv_Quote s
      | AttrBool ValueStateNull \<Rightarrow> ''<null>''
      | AttrBool ValueStateUnknown \<Rightarrow> ''<unknown>''
      | AttrBool (ValueStateKnown b) \<Rightarrow> (if b then ''true'' else ''false''))"

text \<open>\<^verbatim>\<open>Elements()\<close> of a list or a map: nothing for a null or unknown value.\<close>

definition List_Elements :: "types_List \<Rightarrow> attr_Value list" where
  "List_Elements l = (case l of ValueStateKnown xs \<Rightarrow> xs | _ \<Rightarrow> [])"

definition Map_Elements :: "types_Map \<Rightarrow> (string \<rightharpoonup> attr_Value)" where
  "Map_Elements m = (case m of ValueStateKnown f \<Rightarrow> f | _ \<Rightarrow> Map.empty)"

subsection \<open>Diagnostics\<close>

datatype diag = ErrorDiagnostic string string | WarningDiagnostic string string

type_synonym Diagnostics = "diag list"

fun isError :: "diag \<Rightarrow> bool" where
  "isError (ErrorDiagnostic summary detail) = True"
| "isError (WarningDiagnostic summary detail) = False"

definition HasError :: "Diagnostics \<Rightarrow> bool" where
  "HasError ds = list_ex isError ds"

text \<open>\<^verbatim>\<open>Diagnostics.Append\<close> skips a diagnostic the list already contains.\<close>

fun Append :: "Diagnostics \<Rightarrow> diag list \<Rightarrow> Diagnostics" where
  "Append ds [] = ds"
| "Append ds (d # rest) = Append (if d \<in> set ds then ds else ds @ [d]) rest"

definition AddError :: "Diagnostics \<Rightarrow> string \<Rightarrow> string \<Rightarrow> Diagnostics" where
  "AddError ds summary detail = Append ds [ErrorDiagnostic summary detail]"

text \<open>
  Modelled from the spec: \<^verbatim>\<open>core.LogAndAddError\<close> is declared in package \<^verbatim>\<open>stackit/core\<close>,
  whose file is not among the sources. Errors are "surfaced as Terraform diagnostics":
  it logs the error and adds it to the diagnostics it is given.
\<close>

definition LogAndAddError :: "Diagnostics \<Rightarrow> string \<Rightarrow> string \<Rightarrow> Diagnostics" where
  "LogAndAddError ds summary detail = AddError ds summary detail"

text \<open>
  Modelled from the spec: \<^verbatim>\<open>core.Separator\<close> is declared in package \<^verbatim>\<open>stackit/core\<close>,
  whose file is not among the sources. The import identifier is a "comma-separated
  composite key".
\<close>

definition Separator :: string where
  "Separator = '',''"

text \<open>
  A response of the framework holds the diagnostics and the state. The state of an
  import is written attribute by attribute, so there it is a map from the attribute's
  name; \<^verbatim>\<open>SetAttribute\<close> of a string to a string attribute of the schema gives no
  diagnostic.
\<close>

record 'st Response =
  Diagnostics :: Diagnostics
  State :: 'st

type_synonym ImportStateResponse = "(string \<rightharpoonup> string) Response"

definition SetAttribute :: "ImportStateResponse \<Rightarrow> string \<Rightarrow> string \<Rightarrow> ImportStateResponse" where
  "SetAttribute resp name v = resp\<lparr>State := (State resp)(name \<mapsto> v)\<rparr>"

section \<open>ImportState\<close>

text \<open>Argus instance: the identifier is \<^verbatim>\<open>project_id,instance_id\<close>.\<close>

definition argus_ImportState :: "string \<Rightarrow> ImportStateResponse \<Rightarrow> ImportStateResponse" where
  "argus_ImportState ID resp =
     (let idParts = strings_Split ID Separator in
      if length idParts \<noteq> 2 \<or> idParts ! 0 = [] \<or> idParts ! 1 = []
      then resp\<lparr>Diagnostics := AddError (Diagnostics resp) ''Unexpected Import Identifier''
             (''Expected import identifier with format: [project_id],[instance_id]  Got: ''
                @ strconv_Quote ID)\<rparr>
      else SetAttribute (SetAttribute resp ''project_id'' (idParts ! 0))
             ''instance_id'' (idParts ! 1))"

text \<open>DNS record set: the identifier is \<^verbatim>\<open>project_id,zone_id,record_set_id\<close>.\<close>

definition dns_ImportState :: "string \<Rightarrow> ImportStateResponse \<Rightarrow> ImportStateResponse" where
  "dns_ImportState ID resp =
     (let idParts = strings_Split ID Separator in
      if length idParts \<noteq> 3 \<or> idParts ! 0 = [] \<or> idParts ! 1 = [] \<or> idParts ! 2 = []
      then resp\<lparr>Diagnostics := AddError (Diagnostics resp) ''Unexpected Import Identifier''
             (''Expected import identifier with format [project_id],[zone_id],[record_set_id], got ''
                @ strconv_Quote ID)\<rparr>
      else SetAttribute (SetAttribute (SetAttribute resp ''project_id'' (idParts ! 0))
             ''zone_id'' (idParts ! 1)) ''record_set_id'' (idParts ! 2))"

section \<open>Argus instance: data model\<close>

text \<open>The state model of the resource (struct \<^verbatim>\<open>Model\<close> of package argus).\<close>

record argus_Model =
  a_Id :: types_String
  a_ProjectId :: types_String
  a_InstanceId :: types_String
  a_Name :: types_String
  a_PlanName :: types_String
  a_PlanId :: types_String
  a_Parameters :: types_Map
  a_DashboardURL :: types_String
  a_IsUpdatable :: types_Bool
  a_GrafanaURL :: types_String
  a_GrafanaPublicReadAccess :: types_Bool
  a_GrafanaInitialAdminPassword :: types_String
  a_GrafanaInitialAdminUser :: types_String
  a_MetricsRetentionDays :: types_Int64
  a_MetricsRetentionDays5mDownsampling :: types_Int64
  a_MetricsRetentionDays1hDownsampling :: types_Int64
  a_MetricsURL :: types_String
  a_MetricsPushURL :: types_String
  a_TargetsURL :: types_String
  a_AlertingURL :: types_String
  a_LogsURL :: types_String
  a_LogsPushURL :: types_String
  a_JaegerTracesURL :: types_String
  a_JaegerUIURL :: types_String
  a_OtlpTracesURL :: types_String
  a_ZipkinSpansURL :: types_String

text \<open>
  The responses and payloads of the Argus SDK, with the fields the provider reads or
  writes. Every field is a pointer in Go, \<open>None\<close> is nil. The retention times are
  pointers to a signed integer that the provider widens with \<^verbatim>\<open>int64(...)\<close>.
\<close>

record argus_Instance =
  i_GrafanaUrl :: "string option"
  i_GrafanaPublicReadAccess :: "bool option"
  i_GrafanaAdminPassword :: "string option"
  i_GrafanaAdminUser :: "string option"
  i_MetricsRetentionTimeRaw :: "32 word option"
  i_MetricsRetentionTime5m :: "32 word option"
  i_MetricsRetentionTime1h :: "32 word option"
  i_MetricsUrl :: "string option"
  i_PushMetricsUrl :: "string option"
  i_TargetsUrl :: "string option"
  i_AlertingUrl :: "string option"
  i_LogsUrl :: "string option"
  i_LogsPushUrl :: "string option"
  i_JaegerTracesUrl :: "string option"
  i_JaegerUiUrl :: "string option"
  i_OtlpTracesUrl :: "string option"
  i_ZipkinSpansUrl :: "string option"

record InstanceResponse =
  r_Id :: "string option"
  r_PlanName :: "string option"
  r_PlanId :: "string option"
  r_Name :: "string option"
  r_Parameters :: "(string \<rightharpoonup> string) option"
  r_IsUpdatable :: "bool option"
  r_DashboardUrl :: "string option"
  r_Instance :: "argus_Instance option"

record Plan =
  p_Name :: "string option"
  p_PlanId :: "string option"

record PlansResponse =
  Plans :: "Plan list option"

record CreateInstanceResponse =
  InstanceId :: "string option"

record CreateInstancePayload =
  cip_Name :: "string option"
  cip_PlanId :: "string option"
  cip_Parameter :: "(string \<rightharpoonup> string) option"

record UpdateInstancePayload =
  uip_Name :: "string option"
  uip_PlanId :: "string option"
  uip_Parameter :: "(string \<rightharpoonup> string) option"

text \<open>
  A Go function either returns or panics (here: on the dereference of a nil pointer).
\<close>

datatype 'a returned = Panics | Returns 'a

section \<open>Argus instance: mapFields and the payloads\<close>

text \<open>
  The part of \<^verbatim>\<open>mapFields\<close> under \<^verbatim>\<open>if r.Instance != nil\<close>. The three retention times are
  dereferenced as they are.
\<close>

definition argus_mapInstance :: "argus_Instance \<Rightarrow> argus_Model \<Rightarrow> argus_Model returned" where
  "argus_mapInstance i model =
     (case i_MetricsRetentionTimeRaw i of None \<Rightarrow> Panics | Some raw \<Rightarrow>
      case i_MetricsRetentionTime5m i of None \<Rightarrow> Panics | Some t5m \<Rightarrow>
      case i_MetricsRetentionTime1h i of None \<Rightarrow> Panics | Some t1h \<Rightarrow>
        Returns (model
          \<lparr>a_GrafanaURL := StringPointerValue (i_GrafanaUrl i),
           a_GrafanaPublicReadAccess := BoolPointerValue (i_GrafanaPublicReadAccess i),
           a_GrafanaInitialAdminPassword := StringPointerValue (i_GrafanaAdminPassword i),
           a_GrafanaInitialAdminUser := StringPointerValue (i_GrafanaAdminUser i),
           a_MetricsRetentionDays := Int64Value (scast raw),
           a_MetricsRetentionDays5mDownsampling := Int64Value (scast t5m),
           a_MetricsRetentionDays1hDownsampling := Int64Value (scast t1h),
           a_MetricsURL := StringPointerValue (i_MetricsUrl i),
           a_MetricsPushURL := StringPointerValue (i_PushMetricsUrl i),
           a_TargetsURL := StringPointerValue (i_TargetsUrl i),
           a_AlertingURL := StringPointerValue (i_AlertingUrl i),
           a_LogsURL := StringPointerValue (i_LogsUrl i),
           a_LogsPushURL := StringPointerValue (i_LogsPushUrl i),
           a_JaegerTracesURL := StringPointerValue (i_JaegerTracesUrl i),
           a_JaegerUIURL := StringPointerValue (i_JaegerUiUrl i),
           a_OtlpTracesURL := StringPointerValue (i_OtlpTracesUrl i),
           a_ZipkinSpansURL := StringPointerValue (i_ZipkinSpansUrl i)\<rparr>))"

text \<open>
  \<^verbatim>\<open>mapFields\<close> from the point where the instance id is known. The parameters become a
  map of known strings; \<^verbatim>\<open>types.MapValueFrom\<close> gives no error for such a map.
\<close>

definition argus_mapKnown ::
  "InstanceResponse \<Rightarrow> argus_Model \<Rightarrow> string \<Rightarrow> (string option \<times> argus_Model option) returned" where
  "argus_mapKnown r model instanceId =
     (let idParts = [ValueString (a_ProjectId model), instanceId];
          model1 = model
            \<lparr>a_Id := StringValue (strings_Join idParts Separator),
             a_InstanceId := StringValue instanceId,
             a_PlanName := StringPointerValue (r_PlanName r),
             a_PlanId := StringPointerValue (r_PlanId r),
             a_Name := StringPointerValue (r_Name r)\<rparr>;
          model2 = model1
            \<lparr>a_Parameters :=
               (case r_Parameters r of
                  None \<Rightarrow> ValueStateNull
                | Some ps \<Rightarrow> ValueStateKnown (\<lambda>k. map_option (\<lambda>v. AttrString (StringValue v)) (ps k)))\<rparr>;
          model3 = model2
            \<lparr>a_IsUpdatable := BoolPointerValue (r_IsUpdatable r),
             a_DashboardURL := StringPointerValue (r_DashboardUrl r)\<rparr>
      in case r_Instance r of
           None \<Rightarrow> Returns (None, Some model3)
         | Some i \<Rightarrow>
             (case argus_mapInstance i model3 of
                Panics \<Rightarrow> Panics
              | Returns model4 \<Rightarrow> Returns (None, Some model4)))"

text \<open>
  \<^verbatim>\<open>mapFields(ctx, r, model)\<close>: both arguments are pointers. The result is the error
  (\<open>None\<close> is nil) and the model the pointer refers to after the call.
\<close>

definition argus_mapFields ::
  "InstanceResponse option \<Rightarrow> argus_Model option
     \<Rightarrow> (string option \<times> argus_Model option) returned" where
  "argus_mapFields r model =
     (case r of
        None \<Rightarrow> Returns (Some ''response input is nil'', model)
      | Some resp \<Rightarrow>
          (case model of
             None \<Rightarrow> Returns (Some ''model input is nil'', None)
           | Some m \<Rightarrow>
               if ValueString (a_InstanceId m) \<noteq> []
               then argus_mapKnown resp m (ValueString (a_InstanceId m))
               else (case r_Id resp of
                       Some instanceId \<Rightarrow> argus_mapKnown resp m instanceId
                     | None \<Rightarrow> Returns (Some ''instance id not present'', Some m))))"

text \<open>
  \<^verbatim>\<open>toCreatePayload\<close> and \<^verbatim>\<open>toUpdatePayload\<close>: every element of the parameters goes into
  the payload through its \<^verbatim>\<open>String()\<close> method.
\<close>

definition argus_toCreatePayload :: "argus_Model option \<Rightarrow> string + CreateInstancePayload" where
  "argus_toCreatePayload model =
     (case model of
        None \<Rightarrow> Inl ''nil model''
      | Some m \<Rightarrow>
          (let elements = Map_Elements (a_Parameters m);
               pa = (\<lambda>k. map_option attr_String (elements k))
           in Inr \<lparr>cip_Name = ValueStringPointer (a_Name m),
                   cip_PlanId = ValueStringPointer (a_PlanId m),
                   cip_Parameter = Some pa\<rparr>))"

definition argus_toUpdatePayload :: "argus_Model option \<Rightarrow> string + UpdateInstancePayload" where
  "argus_toUpdatePayload model =
     (case model of
        None \<Rightarrow> Inl ''nil model''
      | Some m \<Rightarrow>
          (let elements = Map_Elements (a_Parameters m);
               pa = (\<lambda>k. map_option attr_String (elements k))
           in Inr \<lparr>uip_Name = ValueStringPointer (a_Name m),
                   uip_PlanId = ValueStringPointer (a_PlanId m),
                   uip_Parameter = Some pa\<rparr>))"

section \<open>DNS record set: data model\<close>

text \<open>The state model of the resource and of the data source (struct \<^verbatim>\<open>Model\<close> of package dns).\<close>

record dns_Model =
  d_Id :: types_String
  d_RecordSetId :: types_String
  d_ZoneId :: types_String
  d_ProjectId :: types_String
  d_Active :: types_Bool
  d_Comment :: types_String
  d_Name :: types_String
  d_Records :: types_List
  d_TTL :: types_Int64
  d_Type :: types_String
  d_Error :: types_String
  d_State :: types_String

text \<open>The responses and payloads of the DNS SDK, with the fields the provider uses.\<close>

record Record =
  Content :: "string option"

record RecordSet =
  rs_Id :: "string option"
  rs_Records :: "Record list option"
  rs_Active :: "bool option"
  rs_Comment :: "string option"
  rs_Error :: "string option"
  rs_Name :: "string option"
  rs_State :: "string option"
  rs_Ttl :: "32 word option"
  rs_Type :: "string option"

record RecordSetResponse =
  Rrset :: "RecordSet option"

record RecordPayload =
  rp_Content :: "string option"

record CreateRecordSetPayload =
  crp_Comment :: "string option"
  crp_Name :: "string option"
  crp_Records :: "RecordPayload list option"
  crp_Ttl :: "32 word option"
  crp_Type :: "string option"

record UpdateRecordSetPayload =
  urp_Comment :: "string option"
  urp_Name :: "string option"
  urp_Records :: "RecordPayload list option"
  urp_Ttl :: "32 word option"

text \<open>
  Modelled from the spec: \<^verbatim>\<open>conversion.ToTypeInt64\<close> and \<^verbatim>\<open>conversion.ToPtrInt32\<close> are
  declared in package \<^verbatim>\<open>stackit/conversion\<close>, whose file is not among the sources. The
  state model's fields are "simple scalars ... mirroring the target API's
  request/response schema": the first carries the optional 32-bit integer of the API
  into the state's Int64 (nil becomes null), the second carries the state's Int64 back
  into an optional 32-bit integer (null and unknown become nil).
\<close>

definition ToTypeInt64 :: "32 word option \<Rightarrow> types_Int64" where
  "ToTypeInt64 i = (case i of None \<Rightarrow> Int64PointerValue None | Some v \<Rightarrow> Int64Value (scast v))"

definition ToPtrInt32 :: "types_Int64 \<Rightarrow> 32 word option" where
  "ToPtrInt32 source =
     (case source of ValueStateKnown v \<Rightarrow> Some (ucast v) | _ \<Rightarrow> None)"

section \<open>DNS record set: mapFields and the payloads\<close>

text \<open>
  \<^verbatim>\<open>mapFields(recordSetResp, model)\<close>. The list of records is built from
  \<^verbatim>\<open>types.StringPointerValue\<close> of each content, for which \<^verbatim>\<open>types.ListValue\<close> gives no
  error. The result is the error and the model the pointer refers to after the call;
  the function dereferences no pointer it has not compared with nil.
\<close>

definition dns_mapKnown :: "RecordSet \<Rightarrow> dns_Model \<Rightarrow> string \<Rightarrow> dns_Model" where
  "dns_mapKnown recordSet model recordSetId =
     (let model1 = model
            \<lparr>d_Records :=
               (case rs_Records recordSet of
                  None \<Rightarrow> ValueStateNull
                | Some rs \<Rightarrow>
                    ValueStateKnown (map (\<lambda>record. AttrString (StringPointerValue (Content record))) rs))\<rparr>;
          idParts = [ValueString (d_ProjectId model1), ValueString (d_ZoneId model1), recordSetId]
      in model1
           \<lparr>d_Id := StringValue (strings_Join idParts Separator),
            d_RecordSetId := StringPointerValue (rs_Id recordSet),
            d_Active := BoolPointerValue (rs_Active recordSet),
            d_Comment := StringPointerValue (rs_Comment recordSet),
            d_Error := StringPointerValue (rs_Error recordSet),
            d_Name := StringPointerValue (rs_Name recordSet),
            d_State := StringPointerValue (rs_State recordSet),
            d_TTL := ToTypeInt64 (rs_Ttl recordSet),
            d_Type := StringPointerValue (rs_Type recordSet)\<rparr>)"

definition dns_mapFields ::
  "RecordSetResponse option \<Rightarrow> dns_Model option \<Rightarrow> string option \<times> dns_Model option" where
  "dns_mapFields recordSetResp model =
     (case recordSetResp of
        None \<Rightarrow> (Some ''response input is nil'', model)
      | Some resp \<Rightarrow>
          (case Rrset resp of
             None \<Rightarrow> (Some ''response input is nil'', model)
           | Some recordSet \<Rightarrow>
               (case model of
                  None \<Rightarrow> (Some ''model input is nil'', None)
                | Some m \<Rightarrow>
                    if ValueString (d_RecordSetId m) \<noteq> []
                    then (None, Some (dns_mapKnown recordSet m (ValueString (d_RecordSetId m))))
                    else (case rs_Id recordSet of
                            Some recordSetId \<Rightarrow> (None, Some (dns_mapKnown recordSet m recordSetId))
                          | None \<Rightarrow> (Some ''record set id not present'', Some m)))))"

text \<open>Decimal digits of an index, for the verb \<^verbatim>\<open>%d\<close>.\<close>

function showNat :: "nat \<Rightarrow> string" where
  "showNat n = (if n < 10 then [''0123456789'' ! n] else showNat (n div 10) @ [''0123456789'' ! (n mod 10)])"
  by pat_completeness auto
termination
  by (relation "measure id") auto

text \<open>
  The loop over \<^verbatim>\<open>model.Records.Elements()\<close> of both payload functions: an element that
  is not a \<^verbatim>\<open>types.String\<close> ends it with an error.
\<close>

fun recordPayloads :: "attr_Value list \<Rightarrow> nat \<Rightarrow> RecordPayload list \<Rightarrow> string + RecordPayload list" where
  "recordPayloads [] i records = Inr records"
| "recordPayloads (AttrString recordString # rest) i records =
     recordPayloads rest (i + 1) (records @ [\<lparr>rp_Content = ValueStringPointer recordString\<rparr>])"
| "recordPayloads (AttrBool b # rest) i records =
     Inl (''expected record at index '' @ showNat i
          @ '' to be of type basetypes.StringValue, got basetypes.BoolValue'')"

definition dns_toCreatePayload :: "dns_Model option \<Rightarrow> string + CreateRecordSetPayload" where
  "dns_toCreatePayload model =
     (case model of
        None \<Rightarrow> Inl ''nil model''
      | Some m \<Rightarrow>
          (case recordPayloads (List_Elements (d_Records m)) 0 [] of
             Inl err \<Rightarrow> Inl err
           | Inr records \<Rightarrow>
               Inr \<lparr>crp_Comment = ValueStringPointer (d_Comment m),
                    crp_Name = ValueStringPointer (d_Name m),
                    crp_Records = Some records,
                    crp_Ttl = ToPtrInt32 (d_TTL m),
                    crp_Type = ValueStringPointer (d_Type m)\<rparr>))"

definition dns_toUpdatePayload :: "dns_Model option \<Rightarrow> string + UpdateRecordSetPayload" where
  "dns_toUpdatePayload model =
     (case model of
        None \<Rightarrow> Inl ''nil model''
      | Some m \<Rightarrow>
          (case recordPayloads (List_Elements (d_Records m)) 0 [] of
             Inl err \<Rightarrow> Inl err
           | Inr records \<Rightarrow>
               Inr \<lparr>urp_Comment = ValueStringPointer (d_Comment m),
                    urp_Name = ValueStringPointer (d_Name m),
                    urp_Records = Some records,
                    urp_Ttl = ToPtrInt32 (d_TTL m)\<rparr>))"

section \<open>The SDK clients and the run of an operation\<close>

text \<open>
  The provider talks to the cloud through the generated SDK only. A client is the
  answers of the SDK: each method takes the arguments the provider passes and gives the
  pair Go returns, a pointer to the response (\<open>None\<close> is nil) and an error (\<open>None\<close> is
  nil); where the provider discards the response the answer is the error alone. A wait
  handler is called with its timeout and gives an \<^verbatim>\<open>interface{}\<close> and an error.
  \<^verbatim>\<open>time.Duration\<close> counts nanoseconds.
\<close>

definition time_Minute :: int where
  "time_Minute = 60 * 1000000000"

text \<open>
  The value a wait handler returns is an \<^verbatim>\<open>interface{}\<close>: the type assertion to the pointer
  type succeeds on \<open>ResponsePtr\<close> (also for a nil pointer of that type) and fails on
  \<open>OtherValue\<close>.
\<close>

datatype 'r wait_result = ResponsePtr "'r option" | OtherValue

datatype argus_call =
    GetPlans string
  | CreateInstance string CreateInstancePayload
  | CreateInstanceWaitHandler string string int
  | GetInstance string string
  | UpdateInstance string string UpdateInstancePayload
  | UpdateInstanceWaitHandler string string int
  | DeleteInstance string string
  | DeleteInstanceWaitHandler string string int

record argus_APIClient =
  GetPlansExecute :: "string \<Rightarrow> PlansResponse option \<times> string option"
  CreateInstanceExecute ::
    "string \<Rightarrow> CreateInstancePayload \<Rightarrow> CreateInstanceResponse option \<times> string option"
  CreateInstanceWait :: "string \<Rightarrow> string \<Rightarrow> int \<Rightarrow> InstanceResponse wait_result \<times> string option"
  GetInstanceExecute :: "string \<Rightarrow> string \<Rightarrow> InstanceResponse option \<times> string option"
  UpdateInstanceExecute :: "string \<Rightarrow> string \<Rightarrow> UpdateInstancePayload \<Rightarrow> string option"
  UpdateInstanceWait :: "string \<Rightarrow> string \<Rightarrow> int \<Rightarrow> InstanceResponse wait_result \<times> string option"
  DeleteInstanceExecute :: "string \<Rightarrow> string \<Rightarrow> string option"
  DeleteInstanceWait :: "string \<Rightarrow> string \<Rightarrow> int \<Rightarrow> string option"

datatype dns_call =
    CreateRecordSet string string CreateRecordSetPayload
  | CreateRecordSetWaitHandler string string string int
  | GetRecordSet string string string
  | UpdateRecordSet string string string UpdateRecordSetPayload
  | UpdateRecordSetWaitHandler string string string int
  | DeleteRecordSet string string string
  | DeleteRecordSetWaitHandler string string string int

record dns_APIClient =
  CreateRecordSetExecute ::
    "string \<Rightarrow> string \<Rightarrow> CreateRecordSetPayload \<Rightarrow> RecordSetResponse option \<times> string option"
  CreateRecordSetWait ::
    "string \<Rightarrow> string \<Rightarrow> string \<Rightarrow> int \<Rightarrow> RecordSetResponse wait_result \<times> string option"
  GetRecordSetExecute :: "string \<Rightarrow> string \<Rightarrow> string \<Rightarrow> RecordSetResponse option \<times> string option"
  UpdateRecordSetExecute :: "string \<Rightarrow> string \<Rightarrow> string \<Rightarrow> UpdateRecordSetPayload \<Rightarrow> string option"
  UpdateRecordSetWait ::
    "string \<Rightarrow> string \<Rightarrow> string \<Rightarrow> int \<Rightarrow> RecordSetResponse wait_result \<times> string option"
  DeleteRecordSetExecute :: "string \<Rightarrow> string \<Rightarrow> string \<Rightarrow> string option"
  DeleteRecordSetWait :: "string \<Rightarrow> string \<Rightarrow> string \<Rightarrow> int \<Rightarrow> string option"

text \<open>
  What an operation leaves behind: the SDK calls it made, in order, the response of the
  framework (diagnostics and state; the state is \<open>None\<close> until \<^verbatim>\<open>State.Set\<close> writes the
  model), and whether it ended in a panic. \<^verbatim>\<open>State.Set\<close> of a model of the schema gives no
  diagnostic. The calls to the logger are left out.
\<close>

record ('c, 'm) run =
  calls :: "'c list"
  response :: "'m option Response"
  panicked :: bool

definition finished :: "'c list \<Rightarrow> 'm option Response \<Rightarrow> ('c, 'm) run" where
  "finished cs resp = \<lparr>calls = cs, response = resp, panicked = False\<rparr>"

definition crashed :: "'c list \<Rightarrow> 'm option Response \<Rightarrow> ('c, 'm) run" where
  "crashed cs resp = \<lparr>calls = cs, response = resp, panicked = True\<rparr>"

definition addError :: "'m option Response \<Rightarrow> string \<Rightarrow> string \<Rightarrow> 'm option Response" where
  "addError resp summary detail =
     resp\<lparr>Diagnostics := AddError (Diagnostics resp) summary detail\<rparr>"

section \<open>Argus instance: the operations\<close>

text \<open>The loop of \<^verbatim>\<open>loadPlanId\<close> over the plans; it ends at the first match.\<close>

fun findPlan :: "Plan list \<Rightarrow> string \<Rightarrow> argus_Model \<Rightarrow> string \<Rightarrow> argus_Model \<times> string" where
  "findPlan [] planName model avl = (model, avl)"
| "findPlan (p # plans) planName model avl =
     (case p_Name p of
        None \<Rightarrow> findPlan plans planName model avl
      | Some name \<Rightarrow>
          if strings_EqualFold name planName \<and> p_PlanId p \<noteq> None
          then (model\<lparr>a_PlanId := StringPointerValue (p_PlanId p)\<rparr>, avl)
          else findPlan plans planName model (avl @ [CHR 0x0A] @ ''- '' @ name))"

text \<open>
  \<^verbatim>\<open>loadPlanId(ctx, diags, model)\<close> writes to the diagnostics and to the model it is given
  pointers to; it returns them here, with the call it made. \<^verbatim>\<open>*res.Plans\<close> is
  dereferenced as it is.
\<close>

definition loadPlanId ::
  "argus_APIClient \<Rightarrow> Diagnostics \<Rightarrow> argus_Model
     \<Rightarrow> argus_call list \<times> (Diagnostics \<times> argus_Model) returned" where
  "loadPlanId client diags model =
     (let projectId = ValueString (a_ProjectId model);
          (res, err) = GetPlansExecute client projectId;
          cs = [GetPlans projectId]
      in case err of
           Some e \<Rightarrow> (cs, Returns (AddError diags ''Failed to list argus plans'' e, model))
         | None \<Rightarrow>
             (case res of
                None \<Rightarrow> (cs, Panics)
              | Some plansResp \<Rightarrow>
                  (case Plans plansResp of
                     None \<Rightarrow> (cs, Panics)
                   | Some plans \<Rightarrow>
                       (let planName = ValueString (a_PlanName model);
                            (model1, avl) = findPlan plans planName model []
                        in if ValueString (a_PlanId model1) = []
                           then (cs, Returns (AddError diags ''Invalid plan_name''
                                   (''Couldn'' @ [CHR 0x27] @ ''t find plan_name '' @ [CHR 0x27]
                                      @ planName @ [CHR 0x27] @ '', available names are:'' @ avl),
                                 model1))
                           else (cs, Returns (diags, model1))))))"

text \<open>
  \<^verbatim>\<open>Create\<close>, from the wait handler on: wait with a timeout of 20 minutes, map the
  response onto the model, set the state.
\<close>

definition argus_Create_wait ::
  "argus_APIClient \<Rightarrow> string \<Rightarrow> string \<Rightarrow> argus_Model \<Rightarrow> argus_call list
     \<Rightarrow> argus_Model option Response \<Rightarrow> (argus_call, argus_Model) run" where
  "argus_Create_wait client projectId instanceId model cs resp =
     (let (wr, err) = CreateInstanceWait client instanceId projectId (20 * time_Minute);
          cs1 = cs @ [CreateInstanceWaitHandler instanceId projectId (20 * time_Minute)]
      in case err of
           Some e \<Rightarrow>
             finished cs1 (addError resp ''Error creating instance''
                             (''Instance creation waiting: '' @ e))
         | None \<Rightarrow>
             (case wr of
                OtherValue \<Rightarrow>
                  finished cs1 (addError resp ''Error creating instance''
                                  ''Wait result conversion, got <nil>'')
              | ResponsePtr got \<Rightarrow>
                  (case argus_mapFields got (Some model) of
                     Panics \<Rightarrow> crashed cs1 resp
                   | Returns (Some e, model1) \<Rightarrow>
                       finished cs1 (addError resp ''Error mapping fields''
                         (''Project id '' @ projectId @ '', instance id '' @ instanceId @ '': '' @ e))
                   | Returns (None, model1) \<Rightarrow> finished cs1 (resp\<lparr>State := model1\<rparr>))))"

text \<open>\<^verbatim>\<open>Create\<close>, from the payload to the instance id the API returns.\<close>

definition argus_Create_send ::
  "argus_APIClient \<Rightarrow> string \<Rightarrow> argus_Model \<Rightarrow> argus_call list
     \<Rightarrow> argus_Model option Response \<Rightarrow> (argus_call, argus_Model) run" where
  "argus_Create_send client projectId model cs resp =
     (case argus_toCreatePayload (Some model) of
        Inl e \<Rightarrow> finished cs (addError resp ''Error creating instance'' (''Creating API payload: '' @ e))
      | Inr payload \<Rightarrow>
          (let (createResp, err) = CreateInstanceExecute client projectId payload;
               cs1 = cs @ [CreateInstance projectId payload]
           in case err of
                Some e \<Rightarrow> finished cs1 (addError resp ''Error creating instance'' (''Calling API: '' @ e))
              | None \<Rightarrow>
                  (case createResp of
                     None \<Rightarrow> crashed cs1 resp
                   | Some created \<Rightarrow>
                       (case InstanceId created of
                          None \<Rightarrow>
                            finished cs1 (addError resp ''Error creating instance''
                              (''API didn'' @ [CHR 0x27] @ ''t return an instance id''))
                        | Some instanceId \<Rightarrow>
                            if instanceId = []
                            then finished cs1 (addError resp ''Error creating instance''
                                   (''API didn'' @ [CHR 0x27] @ ''t return an instance id''))
                            else argus_Create_wait client projectId instanceId model cs1 resp))))"

text \<open>
  \<^verbatim>\<open>Create\<close>. \<open>plan\<close> is what \<^verbatim>\<open>req.Plan.Get(ctx, &model)\<close> gives: the model and the
  diagnostics \<open>diags\<close>. \<^verbatim>\<open>loadPlanId\<close> is given \<^verbatim>\<open>&resp.Diagnostics\<close>; the test after it
  reads \<open>diags\<close>, and its \<^verbatim>\<open>LogAndAddError\<close> writes to \<open>diags\<close>, which nothing reads again.
\<close>

definition argus_Create ::
  "argus_APIClient \<Rightarrow> argus_Model \<times> Diagnostics \<Rightarrow> argus_Model option Response
     \<Rightarrow> (argus_call, argus_Model) run" where
  "argus_Create client plan resp =
     (let (model, diags) = plan;
          resp1 = resp\<lparr>Diagnostics := Append (Diagnostics resp) diags\<rparr>
      in if HasError (Diagnostics resp1) then finished [] resp1
         else
           (let projectId = ValueString (a_ProjectId model)
            in case loadPlanId client (Diagnostics resp1) model of
                 (cs, Panics) \<Rightarrow> crashed cs resp1
               | (cs, Returns (diagnostics2, model2)) \<Rightarrow>
                   if HasError diags then finished cs (resp1\<lparr>Diagnostics := diagnostics2\<rparr>)
                   else argus_Create_send client projectId model2 cs
                          (resp1\<lparr>Diagnostics := diagnostics2\<rparr>)))"

text \<open>\<^verbatim>\<open>Read\<close>. \<open>state\<close> is what \<^verbatim>\<open>req.State.Get(ctx, &model)\<close> gives.\<close>

definition argus_Read ::
  "argus_APIClient \<Rightarrow> argus_Model \<times> Diagnostics \<Rightarrow> argus_Model option Response
     \<Rightarrow> (argus_call, argus_Model) run" where
  "argus_Read client state resp =
     (let (model, diags) = state;
          resp1 = resp\<lparr>Diagnostics := Append (Diagnostics resp) diags\<rparr>
      in if HasError (Diagnostics resp1) then finished [] resp1
         else
           (let projectId = ValueString (a_ProjectId model);
                instanceId = ValueString (a_InstanceId model);
                (instanceResp, err) = GetInstanceExecute client instanceId projectId;
                cs = [GetInstance instanceId projectId]
            in case err of
                 Some e \<Rightarrow>
                   finished cs (addError resp1 ''Error reading instance''
                     (''Project id = '' @ projectId @ '', instance id = '' @ instanceId @ '': '' @ e))
               | None \<Rightarrow>
                   (case argus_mapFields instanceResp (Some model) of
                      Panics \<Rightarrow> crashed cs resp1
                    | Returns (Some e, model1) \<Rightarrow>
                        finished cs (addError resp1 ''Error mapping fields''
                          (''Project id '' @ projectId @ '', instance id '' @ instanceId @ '': '' @ e))
                    | Returns (None, model1) \<Rightarrow> finished cs (resp1\<lparr>State := model1\<rparr>))))"

text \<open>\<^verbatim>\<open>Update\<close>, from the wait handler on, with a timeout of 20 minutes.\<close>

definition argus_Update_wait ::
  "argus_APIClient \<Rightarrow> string \<Rightarrow> string \<Rightarrow> argus_Model \<Rightarrow> argus_call list
     \<Rightarrow> argus_Model option Response \<Rightarrow> (argus_call, argus_Model) run" where
  "argus_Update_wait client projectId instanceId model cs resp =
     (let (wr, err) = UpdateInstanceWait client instanceId projectId (20 * time_Minute);
          cs1 = cs @ [UpdateInstanceWaitHandler instanceId projectId (20 * time_Minute)]
      in case err of
           Some e \<Rightarrow>
             finished cs1 (addError resp ''Error updating instance''
                             (''Instance update waiting: '' @ e))
         | None \<Rightarrow>
             (case wr of
                OtherValue \<Rightarrow>
                  finished cs1 (addError resp ''Error updating instance''
                                  ''Wait result conversion, got <nil>'')
              | ResponsePtr got \<Rightarrow>
                  (case argus_mapFields got (Some model) of
                     Panics \<Rightarrow> crashed cs1 resp
                   | Returns (Some e, model1) \<Rightarrow>
                       finished cs1 (addError resp ''Error mapping fields in update''
                         (''project id = '' @ projectId @ '', instance Id = '' @ instanceId @ '', '' @ e))
                   | Returns (None, model1) \<Rightarrow> finished cs1 (resp\<lparr>State := model1\<rparr>))))"

text \<open>\<^verbatim>\<open>Update\<close>, with the same test of \<open>diags\<close> after \<^verbatim>\<open>loadPlanId\<close> as \<^verbatim>\<open>Create\<close>.\<close>

definition argus_Update ::
  "argus_APIClient \<Rightarrow> argus_Model \<times> Diagnostics \<Rightarrow> argus_Model option Response
     \<Rightarrow> (argus_call, argus_Model) run" where
  "argus_Update client plan resp =
     (let (model, diags) = plan;
          resp1 = resp\<lparr>Diagnostics := Append (Diagnostics resp) diags\<rparr>
      in if HasError (Diagnostics resp1) then finished [] resp1
         else
           (let projectId = ValueString (a_ProjectId model);
                instanceId = ValueString (a_InstanceId model)
            in case loadPlanId client (Diagnostics resp1) model of
                 (cs, Panics) \<Rightarrow> crashed cs resp1
               | (cs, Returns (diagnostics2, model2)) \<Rightarrow>
                   (let resp2 = resp1\<lparr>Diagnostics := diagnostics2\<rparr>
                    in if HasError diags then finished cs resp2
                       else
                         (case argus_toUpdatePayload (Some model2) of
                            Inl e \<Rightarrow>
                              finished cs (addError resp2 ''Error updating instance''
                                (''Could not create API payload: '' @ e))
                          | Inr payload \<Rightarrow>
                              (let err = UpdateInstanceExecute client instanceId projectId payload;
                                   cs1 = cs @ [UpdateInstance instanceId projectId payload]
                               in case err of
                                    Some e \<Rightarrow>
                                      finished cs1 (addError resp2 ''Error updating instance''
                                        (''project id = '' @ projectId @ '', instance Id = ''
                                           @ instanceId @ '', '' @ e))
                                  | None \<Rightarrow>
                                      argus_Update_wait client projectId instanceId model2 cs1 resp2)))))"

text \<open>\<^verbatim>\<open>Delete\<close>, with a timeout of 10 minutes for the wait handler.\<close>

definition argus_Delete ::
  "argus_APIClient \<Rightarrow> argus_Model \<times> Diagnostics \<Rightarrow> argus_Model option Response
     \<Rightarrow> (argus_call, argus_Model) run" where
  "argus_Delete client state resp =
     (let (model, diags) = state;
          resp1 = resp\<lparr>Diagnostics := Append (Diagnostics resp) diags\<rparr>
      in if HasError (Diagnostics resp1) then finished [] resp1
         else
           (let projectId = ValueString (a_ProjectId model);
                instanceId = ValueString (a_InstanceId model);
                err = DeleteInstanceExecute client instanceId projectId;
                cs = [DeleteInstance instanceId projectId]
            in case err of
                 Some e \<Rightarrow>
                   finished cs (addError resp1 ''Error deleting instance''
                     (''project id = '' @ projectId @ '', instance Id = '' @ instanceId @ '', '' @ e))
               | None \<Rightarrow>
                   (let err1 = DeleteInstanceWait client instanceId projectId (10 * time_Minute);
                        cs1 = cs @ [DeleteInstanceWaitHandler instanceId projectId (10 * time_Minute)]
                    in case err1 of
                         Some e \<Rightarrow>
                           finished cs1 (addError resp1 ''Error deleting instance''
                             (''Instance deletion waiting: '' @ e))
                       | None \<Rightarrow> finished cs1 resp1)))"

section \<open>DNS record set: the operations\<close>

text \<open>
  \<^verbatim>\<open>Create\<close>. A nil \<^verbatim>\<open>Rrset\<close> or a nil id in the answer is handled like an error of the
  call, with \<^verbatim>\<open>%v\<close> of the nil error in the detail. The wait handler gets 1 minute.
\<close>

definition dns_Create_wait ::
  "dns_APIClient \<Rightarrow> string \<Rightarrow> string \<Rightarrow> string \<Rightarrow> dns_Model \<Rightarrow> dns_call list
     \<Rightarrow> dns_Model option Response \<Rightarrow> (dns_call, dns_Model) run" where
  "dns_Create_wait client projectId zoneId recordSetId model cs resp =
     (let (wr, err) = CreateRecordSetWait client projectId zoneId recordSetId (1 * time_Minute);
          cs1 = cs @ [CreateRecordSetWaitHandler projectId zoneId recordSetId (1 * time_Minute)]
      in case err of
           Some e \<Rightarrow>
             finished cs1 (resp\<lparr>Diagnostics := LogAndAddError (Diagnostics resp)
               ''Error creating recordset'' (''Instance creation waiting: '' @ e)\<rparr>)
         | None \<Rightarrow>
             (case wr of
                OtherValue \<Rightarrow>
                  finished cs1 (resp\<lparr>Diagnostics := LogAndAddError (Diagnostics resp)
                    ''Error creating recordset'' ''Wait result conversion, got <nil>''\<rparr>)
              | ResponsePtr got \<Rightarrow>
                  (case dns_mapFields got (Some model) of
                     (Some e, model1) \<Rightarrow>
                       finished cs1 (resp\<lparr>Diagnostics := LogAndAddError (Diagnostics resp)
                         ''Error mapping fields'' e\<rparr>)
                   | (None, model1) \<Rightarrow> finished cs1 (resp\<lparr>State := model1\<rparr>))))"

definition dns_Create ::
  "dns_APIClient \<Rightarrow> dns_Model \<times> Diagnostics \<Rightarrow> dns_Model option Response
     \<Rightarrow> (dns_call, dns_Model) run" where
  "dns_Create client plan resp =
     (let (model, diags) = plan;
          resp1 = resp\<lparr>Diagnostics := Append (Diagnostics resp) diags\<rparr>
      in if HasError (Diagnostics resp1) then finished [] resp1
         else
           (let projectId = ValueString (d_ProjectId model);
                zoneId = ValueString (d_ZoneId model)
            in case dns_toCreatePayload (Some model) of
                 Inl e \<Rightarrow>
                   finished [] (resp1\<lparr>Diagnostics := LogAndAddError (Diagnostics resp1)
                     ''Error creating recordset'' (''Creating API payload: '' @ e)\<rparr>)
               | Inr payload \<Rightarrow>
                   (let (recordSetResp, err) = CreateRecordSetExecute client projectId zoneId payload;
                        cs = [CreateRecordSet projectId zoneId payload];
                        failed = (\<lambda>e. finished cs (resp1\<lparr>Diagnostics :=
                                   LogAndAddError (Diagnostics resp1) ''Error creating recordset''
                                     (''Calling API: '' @ e)\<rparr>))
                    in case err of
                         Some e \<Rightarrow> failed e
                       | None \<Rightarrow>
                           (case recordSetResp of
                              None \<Rightarrow> crashed cs resp1
                            | Some created \<Rightarrow>
                                (case Rrset created of
                                   None \<Rightarrow> failed ''<nil>''
                                 | Some recordSet \<Rightarrow>
                                     (case rs_Id recordSet of
                                        None \<Rightarrow> failed ''<nil>''
                                      | Some recordSetId \<Rightarrow>
                                          dns_Create_wait client projectId zoneId recordSetId
                                            model cs resp1))))))"

text \<open>\<^verbatim>\<open>Read\<close> of the resource.\<close>

definition dns_Read ::
  "dns_APIClient \<Rightarrow> dns_Model \<times> Diagnostics \<Rightarrow> dns_Model option Response
     \<Rightarrow> (dns_call, dns_Model) run" where
  "dns_Read client state resp =
     (let (model, diags) = state;
          resp1 = resp\<lparr>Diagnostics := Append (Diagnostics resp) diags\<rparr>
      in if HasError (Diagnostics resp1) then finished [] resp1
         else
           (let projectId = ValueString (d_ProjectId model);
                zoneId = ValueString (d_ZoneId model);
                recordSetId = ValueString (d_RecordSetId model);
                (recordSetResp, err) = GetRecordSetExecute client projectId zoneId recordSetId;
                cs = [GetRecordSet projectId zoneId recordSetId]
            in case err of
                 Some e \<Rightarrow>
                   finished cs (resp1\<lparr>Diagnostics := LogAndAddError (Diagnostics resp1)
                     ''Error reading zones'' e\<rparr>)
               | None \<Rightarrow>
                   (case dns_mapFields recordSetResp (Some model) of
                      (Some e, model1) \<Rightarrow>
                        finished cs (resp1\<lparr>Diagnostics := LogAndAddError (Diagnostics resp1)
                          ''Error mapping fields'' e\<rparr>)
                    | (None, model1) \<Rightarrow> finished cs (resp1\<lparr>State := model1\<rparr>))))"

text \<open>
  \<^verbatim>\<open>Update\<close>: after the wait handler (1 minute) the record set is fetched again and mapped.
\<close>

definition dns_Update_wait ::
  "dns_APIClient \<Rightarrow> string \<Rightarrow> string \<Rightarrow> string \<Rightarrow> dns_Model \<Rightarrow> dns_call list
     \<Rightarrow> dns_Model option Response \<Rightarrow> (dns_call, dns_Model) run" where
  "dns_Update_wait client projectId zoneId recordSetId model cs resp =
     (let (wr, err) = UpdateRecordSetWait client projectId zoneId recordSetId (1 * time_Minute);
          cs1 = cs @ [UpdateRecordSetWaitHandler projectId zoneId recordSetId (1 * time_Minute)]
      in case err of
           Some e \<Rightarrow>
             finished cs1 (resp\<lparr>Diagnostics := LogAndAddError (Diagnostics resp)
               ''Error updating recordset'' (''Instance update waiting: '' @ e)\<rparr>)
         | None \<Rightarrow>
             (case wr of
                OtherValue \<Rightarrow>
                  finished cs1 (resp\<lparr>Diagnostics := LogAndAddError (Diagnostics resp)
                    ''Error updating recordset'' ''Wait result conversion, got <nil>''\<rparr>)
              | ResponsePtr got \<Rightarrow>
                  (let (recordSetResp, err1) = GetRecordSetExecute client projectId zoneId recordSetId;
                       cs2 = cs1 @ [GetRecordSet projectId zoneId recordSetId]
                   in case err1 of
                        Some e \<Rightarrow>
                          finished cs2 (resp\<lparr>Diagnostics := LogAndAddError (Diagnostics resp)
                            ''Error reading updated data'' e\<rparr>)
                      | None \<Rightarrow>
                          (case dns_mapFields recordSetResp (Some model) of
                             (Some e, model1) \<Rightarrow>
                               finished cs2 (resp\<lparr>Diagnostics := LogAndAddError (Diagnostics resp)
                                 ''Error mapping fields in update'' e\<rparr>)
                           | (None, model1) \<Rightarrow> finished cs2 (resp\<lparr>State := model1\<rparr>)))))"

definition dns_Update ::
  "dns_APIClient \<Rightarrow> dns_Model \<times> Diagnostics \<Rightarrow> dns_Model option Response
     \<Rightarrow> (dns_call, dns_Model) run" where
  "dns_Update client plan resp =
     (let (model, diags) = plan;
          resp1 = resp\<lparr>Diagnostics := Append (Diagnostics resp) diags\<rparr>
      in if HasError (Diagnostics resp1) then finished [] resp1
         else
           (let projectId = ValueString (d_ProjectId model);
                zoneId = ValueString (d_ZoneId model);
                recordSetId = ValueString (d_RecordSetId model)
            in case dns_toUpdatePayload (Some model) of
                 Inl e \<Rightarrow>
                   finished [] (resp1\<lparr>Diagnostics := LogAndAddError (Diagnostics resp1)
                     ''Error updating recordset'' (''Could not create API payload: '' @ e)\<rparr>)
               | Inr payload \<Rightarrow>
                   (let err = UpdateRecordSetExecute client projectId zoneId recordSetId payload;
                        cs = [UpdateRecordSet projectId zoneId recordSetId payload]
                    in case err of
                         Some e \<Rightarrow>
                           finished cs (resp1\<lparr>Diagnostics := LogAndAddError (Diagnostics resp1)
                             ''Error updating recordset'' e\<rparr>)
                       | None \<Rightarrow>
                           dns_Update_wait client projectId zoneId recordSetId model cs resp1)))"

text \<open>
  \<^verbatim>\<open>Delete\<close>. The branch for an error of \<^verbatim>\<open>DeleteRecordSet\<close> adds the diagnostic and has no
  \<^verbatim>\<open>return\<close>: the wait handler (1 minute) is called in either case.
\<close>

definition dns_Delete ::
  "dns_APIClient \<Rightarrow> dns_Model \<times> Diagnostics \<Rightarrow> dns_Model option Response
     \<Rightarrow> (dns_call, dns_Model) run" where
  "dns_Delete client state resp =
     (let (model, diags) = state;
          resp1 = resp\<lparr>Diagnostics := Append (Diagnostics resp) diags\<rparr>
      in if HasError (Diagnostics resp1) then finished [] resp1
         else
           (let projectId = ValueString (d_ProjectId model);
                zoneId = ValueString (d_ZoneId model);
                recordSetId = ValueString (d_RecordSetId model);
                err = DeleteRecordSetExecute client projectId zoneId recordSetId;
                cs = [DeleteRecordSet projectId zoneId recordSetId];
                resp2 = (case err of
                           Some e \<Rightarrow> resp1\<lparr>Diagnostics := LogAndAddError (Diagnostics resp1)
                                       ''Error deleting recordset'' e\<rparr>
                         | None \<Rightarrow> resp1);
                err1 = DeleteRecordSetWait client projectId zoneId recordSetId (1 * time_Minute);
                cs1 = cs @ [DeleteRecordSetWaitHandler projectId zoneId recordSetId (1 * time_Minute)]
            in case err1 of
                 Some e \<Rightarrow>
                   finished cs1 (resp2\<lparr>Diagnostics := LogAndAddError (Diagnostics resp2)
                     ''Error deleting record set'' (''Instance deletion waiting: '' @ e)\<rparr>)
               | None \<Rightarrow> finished cs1 resp2))"

text \<open>
  \<^verbatim>\<open>Read\<close> of the data source. \<open>config\<close> is what \<^verbatim>\<open>req.Config.Get(ctx, &state)\<close> gives.
\<close>

definition dns_DataSource_Read ::
  "dns_APIClient \<Rightarrow> dns_Model \<times> Diagnostics \<Rightarrow> dns_Model option Response
     \<Rightarrow> (dns_call, dns_Model) run" where
  "dns_DataSource_Read client config resp =
     (let (state, diags) = config;
          resp1 = resp\<lparr>Diagnostics := Append (Diagnostics resp) diags\<rparr>
      in if HasError (Diagnostics resp1) then finished [] resp1
         else
           (let projectId = ValueString (d_ProjectId state);
                zoneId = ValueString (d_ZoneId state);
                recordSetId = ValueString (d_RecordSetId state);
                (zoneResp, err) = GetRecordSetExecute client projectId zoneId recordSetId;
                cs = [GetRecordSet projectId zoneId recordSetId]
            in case err of
                 Some e \<Rightarrow>
                   finished cs (resp1\<lparr>Diagnostics := LogAndAddError (Diagnostics resp1)
                     ''Unable to Read record set'' e\<rparr>)
               | None \<Rightarrow>
                   (case dns_mapFields zoneResp (Some state) of
                      (Some e, state1) \<Rightarrow>
                        finished cs (resp1\<lparr>Diagnostics := LogAndAddError (Diagnostics resp1)
                          ''Mapping fields'' e\<rparr>)
                    | (None, state1) \<Rightarrow> finished cs (resp1\<lparr>State := state1\<rparr>))))"

section \<open>Zero values\<close>

text \<open>
  The zero value of a Go struct, as \<^verbatim>\<open>var model Model\<close> declares it: every framework
  value is null, every pointer is nil.
\<close>

definition argus_Model_zero :: argus_Model where
  "argus_Model_zero =
     \<lparr>a_Id = ValueStateNull, a_ProjectId = ValueStateNull, a_InstanceId = ValueStateNull,
      a_Name = ValueStateNull, a_PlanName = ValueStateNull, a_PlanId = ValueStateNull,
      a_Parameters = ValueStateNull, a_DashboardURL = ValueStateNull, a_IsUpdatable = ValueStateNull,
      a_GrafanaURL = ValueStateNull, a_GrafanaPublicReadAccess = ValueStateNull,
      a_GrafanaInitialAdminPassword = ValueStateNull, a_GrafanaInitialAdminUser = ValueStateNull,
      a_MetricsRetentionDays = ValueStateNull, a_MetricsRetentionDays5mDownsampling = ValueStateNull,
      a_MetricsRetentionDays1hDownsampling = ValueStateNull, a_MetricsURL = ValueStateNull,
      a_MetricsPushURL = ValueStateNull, a_TargetsURL = ValueStateNull, a_AlertingURL = ValueStateNull,
      a_LogsURL = ValueStateNull, a_LogsPushURL = ValueStateNull, a_JaegerTracesURL = ValueStateNull,
      a_JaegerUIURL = ValueStateNull, a_OtlpTracesURL = ValueStateNull, a_ZipkinSpansURL = ValueStateNull\<rparr>"

definition InstanceResponse_zero :: InstanceResponse where
  "InstanceResponse_zero =
     \<lparr>r_Id = None, r_PlanName = None, r_PlanId = None, r_Name = None, r_Parameters = None,
      r_IsUpdatable = None, r_DashboardUrl = None, r_Instance = None\<rparr>"

definition dns_Model_zero :: dns_Model where
  "dns_Model_zero =
     \<lparr>d_Id = ValueStateNull, d_RecordSetId = ValueStateNull, d_ZoneId = ValueStateNull,
      d_ProjectId = ValueStateNull, d_Active = ValueStateNull, d_Comment = ValueStateNull,
      d_Name = ValueStateNull, d_Records = ValueStateNull, d_TTL = ValueStateNull,
      d_Type = ValueStateNull, d_Error = ValueStateNull, d_State = ValueStateNull\<rparr>"

definition RecordSet_zero :: RecordSet where
  "RecordSet_zero =
     \<lparr>rs_Id = None, rs_Records = None, rs_Active = None, rs_Comment = None, rs_Error = None,
      rs_Name = None, rs_State = None, rs_Ttl = None, rs_Type = None\<rparr>"

section \<open>Reading the calls of a run\<close>

text \<open>The calls of a run that are invocations of a wait handler.\<close>

fun argus_isWait :: "argus_call \<Rightarrow> bool" where
  "argus_isWait (CreateInstanceWaitHandler instanceId projectId timeout) = True"
| "argus_isWait (UpdateInstanceWaitHandler instanceId projectId timeout) = True"
| "argus_isWait (DeleteInstanceWaitHandler instanceId projectId timeout) = True"
| "argus_isWait c = False"

fun dns_isWait :: "dns_call \<Rightarrow> bool" where
  "dns_isWait (CreateRecordSetWaitHandler projectId zoneId recordSetId timeout) = True"
| "dns_isWait (UpdateRecordSetWaitHandler projectId zoneId recordSetId timeout) = True"
| "dns_isWait (DeleteRecordSetWaitHandler projectId zoneId recordSetId timeout) = True"
| "dns_isWait c = False"

text \<open>\<open>follows a b cs\<close>: somewhere in \<open>cs\<close> the call \<open>a\<close> is directly followed by \<open>b\<close>.\<close>

fun follows :: "'c \<Rightarrow> 'c \<Rightarrow> 'c list \<Rightarrow> bool" where
  "follows a b (x # y # ys) = ((x = a \<and> y = b) \<or> follows a b (y # ys))"
| "follows a b [x] = False"
| "follows a b [] = False"

section \<open>Clients that accept every call\<close>

text \<open>
  Two clients for concrete runs: every call succeeds, the plans hold one plan, a create
  call answers with a new id, and a wait handler or a get answers with a response that
  carries the id it was asked for.
\<close>

definition argus_client_accepting :: argus_APIClient where
  "argus_client_accepting =
     \<lparr>GetPlansExecute = (\<lambda>projectId.
        (Some \<lparr>Plans = Some [\<lparr>p_Name = Some ''Monitoring-Medium-EU01'', p_PlanId = Some ''pl-1''\<rparr>]\<rparr>, None)),
      CreateInstanceExecute = (\<lambda>projectId payload. (Some \<lparr>InstanceId = Some ''i-1''\<rparr>, None)),
      CreateInstanceWait = (\<lambda>instanceId projectId timeout.
        (ResponsePtr (Some (InstanceResponse_zero\<lparr>r_Id := Some instanceId\<rparr>)), None)),
      GetInstanceExecute = (\<lambda>instanceId projectId.
        (Some (InstanceResponse_zero\<lparr>r_Id := Some instanceId\<rparr>), None)),
      UpdateInstanceExecute = (\<lambda>instanceId projectId payload. None),
      UpdateInstanceWait = (\<lambda>instanceId projectId timeout.
        (ResponsePtr (Some (InstanceResponse_zero\<lparr>r_Id := Some instanceId\<rparr>)), None)),
      DeleteInstanceExecute = (\<lambda>instanceId projectId. None),
      DeleteInstanceWait = (\<lambda>instanceId projectId timeout. None)\<rparr>"

definition dns_client_accepting :: dns_APIClient where
  "dns_client_accepting =
     \<lparr>CreateRecordSetExecute = (\<lambda>projectId zoneId payload.
        (Some \<lparr>Rrset = Some (RecordSet_zero\<lparr>rs_Id := Some ''rs-1''\<rparr>)\<rparr>, None)),
      CreateRecordSetWait = (\<lambda>projectId zoneId recordSetId timeout.
        (ResponsePtr (Some \<lparr>Rrset = Some (RecordSet_zero\<lparr>rs_Id := Some recordSetId\<rparr>)\<rparr>), None)),
      GetRecordSetExecute = (\<lambda>projectId zoneId recordSetId.
        (Some \<lparr>Rrset = Some (RecordSet_zero\<lparr>rs_Id := Some recordSetId\<rparr>)\<rparr>, None)),
      UpdateRecordSetExecute = (\<lambda>projectId zoneId recordSetId payload. None),
      UpdateRecordSetWait = (\<lambda>projectId zoneId recordSetId timeout.
        (ResponsePtr (Some \<lparr>Rrset = Some (RecordSet_zero\<lparr>rs_Id := Some recordSetId\<rparr>)\<rparr>), None)),
      DeleteRecordSetExecute = (\<lambda>projectId zoneId recordSetId. None),
      DeleteRecordSetWait = (\<lambda>projectId zoneId recordSetId timeout. None)\<rparr>"

section \<open>Properties of the library functions\<close>

lemma splitOn_no_sep: "c \<notin> set s \<Longrightarrow> splitOn [c] part s = [part @ s]"
  by (induction s arbitrary: part) auto

lemma splitOn_cut:
  "c \<notin> set a \<Longrightarrow> splitOn [c] part (a @ c # b) = (part @ a) # splitOn [c] [] b"
  by (induction a arbitrary: part) auto

lemma Join_Cons: "ys \<noteq> [] \<Longrightarrow> strings_Join (x # ys) sep = x @ sep @ strings_Join ys sep"
  by (cases ys) auto

lemma splitOn_nonempty: "splitOn sep part s \<noteq> []"
  by (induction sep part s rule: splitOn.induct) auto

lemma Join_splitOn: "strings_Join (splitOn sep part s) sep = part @ s"
proof (induction sep part s rule: splitOn.induct)
  case (1 sep part)
  then show ?case by simp
next
  case (2 sep part c s)
  show ?case
  proof (cases "sep \<noteq> [] \<and> prefix sep (c # s)")
    case True
    then have "c # s = sep @ drop (length sep) (c # s)"
      by (metis append_eq_conv_conj prefix_def)
    with True 2 show ?thesis
      by (simp add: Join_Cons splitOn_nonempty del: drop_Suc_Cons)
  next
    case False
    with 2 show ?thesis by auto
  qed
qed

lemma splitOn_parts_free_all:
  "c \<notin> set part \<Longrightarrow> list_all (\<lambda>p. c \<notin> set p) (splitOn [c] part s)"
  by (induction s arbitrary: part) auto

lemma splitOn_parts_free:
  "c \<notin> set part \<Longrightarrow> p \<in> set (splitOn [c] part s) \<Longrightarrow> c \<notin> set p"
  using splitOn_parts_free_all [of c part s] by (simp add: list_all_iff)

lemma Split_two:
  assumes "CHR '','' \<notin> set p" "CHR '','' \<notin> set i"
  shows "strings_Split (p @ Separator @ i) Separator = [p, i]"
  using assms by (simp add: strings_Split_def Separator_def splitOn_cut splitOn_no_sep)

lemma Split_three:
  assumes "CHR '','' \<notin> set p" "CHR '','' \<notin> set z" "CHR '','' \<notin> set i"
  shows "strings_Split (p @ Separator @ z @ Separator @ i) Separator = [p, z, i]"
  using assms by (simp add: strings_Split_def Separator_def splitOn_cut splitOn_no_sep)

lemma Split_Join: "strings_Join (strings_Split s Separator) Separator = s"
  using Join_splitOn [of "Separator" "[]" s] by (simp add: strings_Split_def Separator_def)

lemma Split_parts_free: "p \<in> set (strings_Split s Separator) \<Longrightarrow> CHR '','' \<notin> set p"
  using splitOn_parts_free [of "CHR '',''" "[]" p s] by (simp add: strings_Split_def Separator_def)

lemma Append_single_mem: "d \<in> set (Append ds [d])"
  by simp

lemma length_two: "length xs = 2 \<Longrightarrow> \<exists>a b. xs = [a, b]"
  by (auto simp: length_Suc_conv numeral_2_eq_2)

lemma length_three: "length xs = 3 \<Longrightarrow> \<exists>a b c. xs = [a, b, c]"
  by (auto simp: length_Suc_conv numeral_3_eq_3)

lemma AddError_mem: "ErrorDiagnostic summary detail \<in> set (AddError ds summary detail)"
  unfolding AddError_def by (rule Append_single_mem)

lemma AddError_HasError: "HasError (AddError ds summary detail)"
  using AddError_mem [of summary detail ds]
  by (auto simp: HasError_def list_ex_iff intro!: bexI [where x = "ErrorDiagnostic summary detail"])

lemma argus_split_iff:
  "(length (strings_Split ID Separator) = 2 \<and> list_all (\<lambda>p. p \<noteq> []) (strings_Split ID Separator))
   = (\<exists>p i. ID = p @ Separator @ i \<and> p \<noteq> [] \<and> i \<noteq> [] \<and> CHR '','' \<notin> set p \<and> CHR '','' \<notin> set i)"
  (is "?L = ?R")
proof
  assume L: ?L
  then have "length (strings_Split ID Separator) = 2" by simp
  from length_two [OF this] obtain p i where pi: "strings_Split ID Separator = [p, i]"
    by auto
  have "ID = p @ Separator @ i"
    using Split_Join [of ID] by (simp add: pi)
  moreover have "CHR '','' \<notin> set p" "CHR '','' \<notin> set i"
    using Split_parts_free [of p ID] Split_parts_free [of i ID] by (simp_all add: pi)
  moreover have "p \<noteq> []" "i \<noteq> []" using L by (simp_all add: pi)
  ultimately show ?R by blast
next
  assume ?R
  then obtain p i where "ID = p @ Separator @ i" "p \<noteq> []" "i \<noteq> []"
      "CHR '','' \<notin> set p" "CHR '','' \<notin> set i" by blast
  then show ?L by (simp add: Split_two)
qed

lemma dns_split_iff:
  "(length (strings_Split ID Separator) = 3 \<and> list_all (\<lambda>p. p \<noteq> []) (strings_Split ID Separator))
   = (\<exists>p z i. ID = p @ Separator @ z @ Separator @ i \<and> p \<noteq> [] \<and> z \<noteq> [] \<and> i \<noteq> []
        \<and> CHR '','' \<notin> set p \<and> CHR '','' \<notin> set z \<and> CHR '','' \<notin> set i)"
  (is "?L = ?R")
proof
  assume L: ?L
  then have "length (strings_Split ID Separator) = 3" by simp
  from length_three [OF this] obtain p z i where pi: "strings_Split ID Separator = [p, z, i]"
    by auto
  have "ID = p @ Separator @ z @ Separator @ i"
    using Split_Join [of ID] by (simp add: pi)
  moreover have "CHR '','' \<notin> set p" "CHR '','' \<notin> set z" "CHR '','' \<notin> set i"
    using Split_parts_free [of p ID] Split_parts_free [of z ID] Split_parts_free [of i ID]
    by (simp_all add: pi)
  moreover have "p \<noteq> []" "z \<noteq> []" "i \<noteq> []" using L by (simp_all add: pi)
  ultimately show ?R by blast
next
  assume ?R
  then obtain p z i where "ID = p @ Separator @ z @ Separator @ i" "p \<noteq> []" "z \<noteq> []" "i \<noteq> []"
      "CHR '','' \<notin> set p" "CHR '','' \<notin> set z" "CHR '','' \<notin> set i" by blast
  then show ?L by (simp add: Split_three)
qed

section \<open>ImportState accepts the composite key and nothing else\<close>

lemma argus_ImportState_accept:
  assumes "p \<noteq> []" "i \<noteq> []" "CHR '','' \<notin> set p" "CHR '','' \<notin> set i"
  shows "argus_ImportState (p @ Separator @ i) resp
         = resp\<lparr>State := (State resp)(''project_id'' \<mapsto> p, ''instance_id'' \<mapsto> i)\<rparr>"
  using assms by (simp add: argus_ImportState_def Split_two SetAttribute_def)

lemma argus_ImportState_reject:
  assumes "\<not> (length (strings_Split ID Separator) = 2
              \<and> list_all (\<lambda>p. p \<noteq> []) (strings_Split ID Separator))"
  shows "argus_ImportState ID resp
         = resp\<lparr>Diagnostics := AddError (Diagnostics resp) ''Unexpected Import Identifier''
             (''Expected import identifier with format: [project_id],[instance_id]  Got: ''
                @ strconv_Quote ID)\<rparr>"
proof -
  let ?ps = "strings_Split ID Separator"
  have "length ?ps \<noteq> 2 \<or> ?ps ! 0 = [] \<or> ?ps ! 1 = []"
  proof (cases "length ?ps = 2")
    case True
    from length_two [OF this] obtain p i where "?ps = [p, i]"
      by auto
    with assms show ?thesis by auto
  qed simp
  then show ?thesis by (auto simp: argus_ImportState_def Let_def)
qed

lemma dns_ImportState_accept:
  assumes "p \<noteq> []" "z \<noteq> []" "i \<noteq> []"
    "CHR '','' \<notin> set p" "CHR '','' \<notin> set z" "CHR '','' \<notin> set i"
  shows "dns_ImportState (p @ Separator @ z @ Separator @ i) resp
         = resp\<lparr>State := (State resp)(''project_id'' \<mapsto> p, ''zone_id'' \<mapsto> z, ''record_set_id'' \<mapsto> i)\<rparr>"
  using assms by (simp add: dns_ImportState_def Split_three SetAttribute_def)

lemma dns_ImportState_reject:
  assumes "\<not> (length (strings_Split ID Separator) = 3
              \<and> list_all (\<lambda>p. p \<noteq> []) (strings_Split ID Separator))"
  shows "dns_ImportState ID resp
         = resp\<lparr>Diagnostics := AddError (Diagnostics resp) ''Unexpected Import Identifier''
             (''Expected import identifier with format [project_id],[zone_id],[record_set_id], got ''
                @ strconv_Quote ID)\<rparr>"
proof -
  let ?ps = "strings_Split ID Separator"
  have "length ?ps \<noteq> 3 \<or> ?ps ! 0 = [] \<or> ?ps ! 1 = [] \<or> ?ps ! 2 = []"
  proof (cases "length ?ps = 3")
    case True
    from length_three [OF this] obtain p z i where "?ps = [p, z, i]"
      by auto
    with assms show ?thesis by auto
  qed simp
  then show ?thesis by (auto simp: dns_ImportState_def Let_def)
qed

text \<open>
  Claim C4. \<^verbatim>\<open>ImportState\<close> sets the key attributes from the parts exactly when the
  identifier is made of N non-empty parts without a comma, joined by commas (N = 2 for
  the Argus instance, N = 3 for the DNS record set); that is the case exactly when
  \<^verbatim>\<open>strings.Split\<close> gives N parts, all non-empty. For every other identifier the state
  is left as it was and the diagnostics hold the error "Unexpected Import Identifier".
\<close>

theorem ImportState_accepts_exactly_the_composite_key:
  "(p \<noteq> [] \<and> i \<noteq> [] \<and> CHR '','' \<notin> set p \<and> CHR '','' \<notin> set i \<longrightarrow>
      argus_ImportState (p @ Separator @ i) resp
        = resp\<lparr>State := (State resp)(''project_id'' \<mapsto> p, ''instance_id'' \<mapsto> i)\<rparr>)
   \<and> (\<not> (\<exists>p i. ID = p @ Separator @ i \<and> p \<noteq> [] \<and> i \<noteq> []
              \<and> CHR '','' \<notin> set p \<and> CHR '','' \<notin> set i) \<longrightarrow>
        State (argus_ImportState ID resp) = State resp
        \<and> HasError (Diagnostics (argus_ImportState ID resp))
        \<and> ErrorDiagnostic ''Unexpected Import Identifier''
             (''Expected import identifier with format: [project_id],[instance_id]  Got: ''
                @ strconv_Quote ID) \<in> set (Diagnostics (argus_ImportState ID resp)))
   \<and> ((\<exists>p i. ID = p @ Separator @ i \<and> p \<noteq> [] \<and> i \<noteq> []
              \<and> CHR '','' \<notin> set p \<and> CHR '','' \<notin> set i)
        = (length (strings_Split ID Separator) = 2
           \<and> list_all (\<lambda>p. p \<noteq> []) (strings_Split ID Separator)))
   \<and> (q \<noteq> [] \<and> z \<noteq> [] \<and> j \<noteq> []
        \<and> CHR '','' \<notin> set q \<and> CHR '','' \<notin> set z \<and> CHR '','' \<notin> set j \<longrightarrow>
      dns_ImportState (q @ Separator @ z @ Separator @ j) resp
        = resp\<lparr>State := (State resp)(''project_id'' \<mapsto> q, ''zone_id'' \<mapsto> z,
                                        ''record_set_id'' \<mapsto> j)\<rparr>)
   \<and> (\<not> (\<exists>q z j. ID = q @ Separator @ z @ Separator @ j \<and> q \<noteq> [] \<and> z \<noteq> [] \<and> j \<noteq> []
              \<and> CHR '','' \<notin> set q \<and> CHR '','' \<notin> set z \<and> CHR '','' \<notin> set j) \<longrightarrow>
        State (dns_ImportState ID resp) = State resp
        \<and> HasError (Diagnostics (dns_ImportState ID resp))
        \<and> ErrorDiagnostic ''Unexpected Import Identifier''
             (''Expected import identifier with format [project_id],[zone_id],[record_set_id], got ''
                @ strconv_Quote ID) \<in> set (Diagnostics (dns_ImportState ID resp)))
   \<and> ((\<exists>q z j. ID = q @ Separator @ z @ Separator @ j \<and> q \<noteq> [] \<and> z \<noteq> [] \<and> j \<noteq> []
              \<and> CHR '','' \<notin> set q \<and> CHR '','' \<notin> set z \<and> CHR '','' \<notin> set j)
        = (length (strings_Split ID Separator) = 3
           \<and> list_all (\<lambda>p. p \<noteq> []) (strings_Split ID Separator)))"
proof (intro conjI impI)
  assume "p \<noteq> [] \<and> i \<noteq> [] \<and> CHR '','' \<notin> set p \<and> CHR '','' \<notin> set i"
  then show "argus_ImportState (p @ Separator @ i) resp
        = resp\<lparr>State := (State resp)(''project_id'' \<mapsto> p, ''instance_id'' \<mapsto> i)\<rparr>"
    by (simp add: argus_ImportState_accept)
next
  assume "q \<noteq> [] \<and> z \<noteq> [] \<and> j \<noteq> []
        \<and> CHR '','' \<notin> set q \<and> CHR '','' \<notin> set z \<and> CHR '','' \<notin> set j"
  then show "dns_ImportState (q @ Separator @ z @ Separator @ j) resp
        = resp\<lparr>State := (State resp)(''project_id'' \<mapsto> q, ''zone_id'' \<mapsto> z,
                                        ''record_set_id'' \<mapsto> j)\<rparr>"
    by (simp add: dns_ImportState_accept)
next
  assume "\<not> (\<exists>p i. ID = p @ Separator @ i \<and> p \<noteq> [] \<and> i \<noteq> []
              \<and> CHR '','' \<notin> set p \<and> CHR '','' \<notin> set i)"
  then have r: "argus_ImportState ID resp
         = resp\<lparr>Diagnostics := AddError (Diagnostics resp) ''Unexpected Import Identifier''
             (''Expected import identifier with format: [project_id],[instance_id]  Got: ''
                @ strconv_Quote ID)\<rparr>"
    by (intro argus_ImportState_reject) (simp only: argus_split_iff not_False_eq_True)
  show "State (argus_ImportState ID resp) = State resp" by (simp add: r)
  show "HasError (Diagnostics (argus_ImportState ID resp))"
    by (simp add: r AddError_HasError)
  show "ErrorDiagnostic ''Unexpected Import Identifier''
             (''Expected import identifier with format: [project_id],[instance_id]  Got: ''
                @ strconv_Quote ID) \<in> set (Diagnostics (argus_ImportState ID resp))"
    by (simp add: r) (rule AddError_mem)
next
  assume "\<not> (\<exists>q z j. ID = q @ Separator @ z @ Separator @ j \<and> q \<noteq> [] \<and> z \<noteq> [] \<and> j \<noteq> []
              \<and> CHR '','' \<notin> set q \<and> CHR '','' \<notin> set z \<and> CHR '','' \<notin> set j)"
  then have r: "dns_ImportState ID resp
         = resp\<lparr>Diagnostics := AddError (Diagnostics resp) ''Unexpected Import Identifier''
             (''Expected import identifier with format [project_id],[zone_id],[record_set_id], got ''
                @ strconv_Quote ID)\<rparr>"
    by (intro dns_ImportState_reject) (simp only: dns_split_iff not_False_eq_True)
  show "State (dns_ImportState ID resp) = State resp" by (simp add: r)
  show "HasError (Diagnostics (dns_ImportState ID resp))"
    by (simp add: r AddError_HasError)
  show "ErrorDiagnostic ''Unexpected Import Identifier''
             (''Expected import identifier with format [project_id],[zone_id],[record_set_id], got ''
                @ strconv_Quote ID) \<in> set (Diagnostics (dns_ImportState ID resp))"
    by (simp add: r) (rule AddError_mem)
next
  show "(\<exists>p i. ID = p @ Separator @ i \<and> p \<noteq> [] \<and> i \<noteq> []
              \<and> CHR '','' \<notin> set p \<and> CHR '','' \<notin> set i)
        = (length (strings_Split ID Separator) = 2
           \<and> list_all (\<lambda>p. p \<noteq> []) (strings_Split ID Separator))"
    by (rule argus_split_iff [symmetric])
next
  show "(\<exists>q z j. ID = q @ Separator @ z @ Separator @ j \<and> q \<noteq> [] \<and> z \<noteq> [] \<and> j \<noteq> []
              \<and> CHR '','' \<notin> set q \<and> CHR '','' \<notin> set z \<and> CHR '','' \<notin> set j)
        = (length (strings_Split ID Separator) = 3
           \<and> list_all (\<lambda>p. p \<noteq> []) (strings_Split ID Separator))"
    by (rule dns_split_iff [symmetric])
qed

theorem ImportState_accepts_exactly_the_composite_key_witness:
  "argus_ImportState ''ab,cd'' \<lparr>Diagnostics = [], State = Map.empty\<rparr>
     = \<lparr>Diagnostics = [], State = [''project_id'' \<mapsto> ''ab'', ''instance_id'' \<mapsto> ''cd'']\<rparr>
   \<and> State (argus_ImportState ''ab,cd,ef'' \<lparr>Diagnostics = [], State = Map.empty\<rparr>) = Map.empty
   \<and> HasError (Diagnostics (argus_ImportState ''ab,cd,ef'' \<lparr>Diagnostics = [], State = Map.empty\<rparr>))
   \<and> dns_ImportState ''ab,cd,ef'' \<lparr>Diagnostics = [], State = Map.empty\<rparr>
     = \<lparr>Diagnostics = [],
        State = [''project_id'' \<mapsto> ''ab'', ''zone_id'' \<mapsto> ''cd'', ''record_set_id'' \<mapsto> ''ef'']\<rparr>
   \<and> State (dns_ImportState ''ab,,ef'' \<lparr>Diagnostics = [], State = Map.empty\<rparr>) = Map.empty
   \<and> HasError (Diagnostics (dns_ImportState ''ab,,ef'' \<lparr>Diagnostics = [], State = Map.empty\<rparr>))"
proof -
  let ?r = "\<lparr>Diagnostics = [], State = (Map.empty :: string \<rightharpoonup> string)\<rparr>"
  have s3: "strings_Split ''ab,cd,ef'' Separator = [''ab'', ''cd'', ''ef'']"
    by (simp add: strings_Split_def Separator_def)
  have s4: "strings_Split ''ab,,ef'' Separator = [''ab'', [], ''ef'']"
    by (simp add: strings_Split_def Separator_def)
  note a = ImportState_accepts_exactly_the_composite_key
    [of "''ab''" "''cd''" ?r "''ab,cd,ef''" "''ab''" "''cd''" "''ef''"]
  note b = ImportState_accepts_exactly_the_composite_key
    [of "''ab''" "''cd''" ?r "''ab,,ef''" "''ab''" "''cd''" "''ef''"]
  have a1: "argus_ImportState (''ab'' @ Separator @ ''cd'') ?r
      = ?r\<lparr>State := (State ?r)(''project_id'' \<mapsto> ''ab'', ''instance_id'' \<mapsto> ''cd'')\<rparr>"
    using a [THEN conjunct1] by simp
  have "\<not> (\<exists>p i. ''ab,cd,ef'' = p @ Separator @ i \<and> p \<noteq> [] \<and> i \<noteq> []
              \<and> CHR '','' \<notin> set p \<and> CHR '','' \<notin> set i)"
    unfolding a [THEN conjunct2, THEN conjunct2, THEN conjunct1] s3 by simp
  from a [THEN conjunct2, THEN conjunct1, rule_format, OF this]
  have a2: "State (argus_ImportState ''ab,cd,ef'' ?r) = State ?r
            \<and> HasError (Diagnostics (argus_ImportState ''ab,cd,ef'' ?r))"
    by simp
  have b1: "dns_ImportState (''ab'' @ Separator @ ''cd'' @ Separator @ ''ef'') ?r
      = ?r\<lparr>State := (State ?r)(''project_id'' \<mapsto> ''ab'', ''zone_id'' \<mapsto> ''cd'',
                                  ''record_set_id'' \<mapsto> ''ef'')\<rparr>"
    using a [THEN conjunct2, THEN conjunct2, THEN conjunct2, THEN conjunct1] by simp
  have "\<not> (\<exists>q z j. ''ab,,ef'' = q @ Separator @ z @ Separator @ j \<and> q \<noteq> [] \<and> z \<noteq> [] \<and> j \<noteq> []
              \<and> CHR '','' \<notin> set q \<and> CHR '','' \<notin> set z \<and> CHR '','' \<notin> set j)"
    unfolding b [THEN conjunct2, THEN conjunct2, THEN conjunct2, THEN conjunct2, THEN conjunct2] s4
    by simp
  from b [THEN conjunct2, THEN conjunct2, THEN conjunct2, THEN conjunct2, THEN conjunct1,
          rule_format, OF this]
  have b2: "State (dns_ImportState ''ab,,ef'' ?r) = State ?r
            \<and> HasError (Diagnostics (dns_ImportState ''ab,,ef'' ?r))"
    by simp
  show ?thesis using a1 a2 b1 b2 by (simp add: Separator_def)
qed

section \<open>mapFields: errors and the choice of the id\<close>

lemma ValueStringPointer_StringPointerValue [simp]:
  "ValueStringPointer (StringPointerValue p) = p"
  by (cases p) (simp_all add: ValueStringPointer_def StringPointerValue_def)

lemma ucast_scast_32_64: "ucast (scast (t :: 32 word) :: 64 word) = t"
  by (rule bit_word_eqI) (auto simp: bit_simps)

lemma ToPtrInt32_ToTypeInt64: "ToPtrInt32 (ToTypeInt64 (Some t)) = Some t"
  by (simp add: ToPtrInt32_def ToTypeInt64_def Int64Value_def ucast_scast_32_64)

lemma recordPayloads_map:
  "recordPayloads (map (\<lambda>record. AttrString (StringPointerValue (Content record))) rs) i acc
     = Inr (acc @ map (\<lambda>record. \<lparr>rp_Content = Content record\<rparr>) rs)"
  by (induction rs arbitrary: i acc) simp_all

lemma argus_mapKnown_no_error: "argus_mapKnown resp m i \<noteq> Returns (Some e, m')"
  by (simp add: argus_mapKnown_def Let_def split: option.splits returned.splits)

lemma argus_mapFields_error_iff:
  "(\<exists>e m'. argus_mapFields r model = Returns (Some e, m'))
     = (r = None \<or> model = None
        \<or> (\<exists>resp m. r = Some resp \<and> model = Some m
              \<and> ValueString (a_InstanceId m) = [] \<and> r_Id resp = None))"
  by (auto simp: argus_mapFields_def argus_mapKnown_no_error split: option.splits)

lemma argus_mapFields_error_unchanged:
  "argus_mapFields r model = Returns (Some e, m') \<Longrightarrow> m' = model"
  by (auto simp: argus_mapFields_def argus_mapKnown_no_error split: option.splits if_splits)

lemma argus_mapKnown_ids:
  "argus_mapKnown resp m i = Returns (None, Some m2) \<Longrightarrow>
     a_Id m2 = StringValue (strings_Join [ValueString (a_ProjectId m), i] Separator)
     \<and> a_InstanceId m2 = StringValue i \<and> a_ProjectId m2 = a_ProjectId m"
  by (auto simp: argus_mapKnown_def argus_mapInstance_def Let_def split: option.splits returned.splits)

lemma argus_mapFields_precedence:
  "ValueString (a_InstanceId m) \<noteq> [] \<Longrightarrow>
   argus_mapFields (Some resp) (Some m) = Returns (None, Some m2) \<Longrightarrow>
     a_Id m2 = StringValue (strings_Join [ValueString (a_ProjectId m), ValueString (a_InstanceId m)] Separator)
     \<and> a_InstanceId m2 = StringValue (ValueString (a_InstanceId m))"
  using argus_mapKnown_ids [of resp m "ValueString (a_InstanceId m)" m2]
  by (simp add: argus_mapFields_def)

lemma dns_mapFields_error_iff:
  "(\<exists>e m'. dns_mapFields rr dmodel = (Some e, m'))
     = (rr = None \<or> (\<exists>resp. rr = Some resp \<and> Rrset resp = None) \<or> dmodel = None
        \<or> (\<exists>resp rs m. rr = Some resp \<and> Rrset resp = Some rs \<and> dmodel = Some m
              \<and> ValueString (d_RecordSetId m) = [] \<and> rs_Id rs = None))"
  by (auto simp: dns_mapFields_def split: option.splits)

lemma dns_mapFields_error_unchanged:
  "dns_mapFields rr dmodel = (Some e, m') \<Longrightarrow> m' = dmodel"
  by (auto simp: dns_mapFields_def split: option.splits if_splits)

lemma dns_mapKnown_Id:
  "d_Id (dns_mapKnown rs m i)
     = StringValue (strings_Join [ValueString (d_ProjectId m), ValueString (d_ZoneId m), i] Separator)"
  by (simp add: dns_mapKnown_def Let_def)

lemma dns_mapFields_precedence:
  "ValueString (d_RecordSetId m) \<noteq> [] \<Longrightarrow> Rrset resp = Some rs \<Longrightarrow>
   \<exists>m2. dns_mapFields (Some resp) (Some m) = (None, Some m2)
     \<and> d_Id m2 = StringValue (strings_Join
          [ValueString (d_ProjectId m), ValueString (d_ZoneId m), ValueString (d_RecordSetId m)] Separator)"
  by (simp add: dns_mapFields_def dns_mapKnown_Id)

text \<open>
  Claim C6. \<^verbatim>\<open>mapFields\<close> of either package returns an error exactly when the response
  (for DNS also its \<^verbatim>\<open>Rrset\<close>) is nil, the model is nil, or neither the model nor the
  response holds an id. With an error the model is as it was. When the model holds a
  non-empty id and the response carries one too, the composite id is built from the
  model's id (and the Argus model keeps it as its \<^verbatim>\<open>instance_id\<close>).
\<close>

theorem mapFields_error_iff_no_input_or_no_id:
  "((\<exists>e m'. argus_mapFields r model = Returns (Some e, m'))
      = (r = None \<or> model = None
         \<or> (\<exists>resp m. r = Some resp \<and> model = Some m
               \<and> ValueString (a_InstanceId m) = [] \<and> r_Id resp = None)))
   \<and> (argus_mapFields r model = Returns (Some e, m') \<longrightarrow> m' = model)
   \<and> (ValueString (a_InstanceId m) \<noteq> [] \<and> r_Id resp = Some rid
        \<and> argus_mapFields (Some resp) (Some m) = Returns (None, Some mres) \<longrightarrow>
          a_Id mres = StringValue (strings_Join
                      [ValueString (a_ProjectId m), ValueString (a_InstanceId m)] Separator)
          \<and> a_InstanceId mres = StringValue (ValueString (a_InstanceId m)))
   \<and> ((\<exists>e m'. dns_mapFields rr dmodel = (Some e, m'))
      = (rr = None \<or> (\<exists>resp. rr = Some resp \<and> Rrset resp = None) \<or> dmodel = None
         \<or> (\<exists>resp rs m. rr = Some resp \<and> Rrset resp = Some rs \<and> dmodel = Some m
               \<and> ValueString (d_RecordSetId m) = [] \<and> rs_Id rs = None)))
   \<and> (dns_mapFields rr dmodel = (Some e, dm') \<longrightarrow> dm' = dmodel)
   \<and> (ValueString (d_RecordSetId dm) \<noteq> [] \<and> Rrset dresp = Some rs \<and> rs_Id rs = Some rid \<longrightarrow>
          (\<exists>dm2. dns_mapFields (Some dresp) (Some dm) = (None, Some dm2)
             \<and> d_Id dm2 = StringValue (strings_Join
                  [ValueString (d_ProjectId dm), ValueString (d_ZoneId dm),
                   ValueString (d_RecordSetId dm)] Separator)))"
  using argus_mapFields_error_iff [of r model] argus_mapFields_error_unchanged [of r model e m']
    argus_mapFields_precedence [of m resp mres]
    dns_mapFields_error_iff [of rr dmodel] dns_mapFields_error_unchanged [of rr dmodel e dm']
    dns_mapFields_precedence [of dm dresp rs]
  by blast

theorem mapFields_error_iff_no_input_or_no_id_witness:
  "argus_mapFields (Some InstanceResponse_zero) (Some argus_Model_zero)
     = Returns (Some ''instance id not present'', Some argus_Model_zero)
   \<and> (\<exists>m2. argus_mapFields (Some (InstanceResponse_zero\<lparr>r_Id := Some ''i-2''\<rparr>))
              (Some (argus_Model_zero\<lparr>a_ProjectId := StringValue ''p'',
                                      a_InstanceId := StringValue ''i-1''\<rparr>))
            = Returns (None, Some m2)
          \<and> a_Id m2 = StringValue ''p,i-1'' \<and> a_InstanceId m2 = StringValue ''i-1'')
   \<and> dns_mapFields (Some \<lparr>Rrset = Some RecordSet_zero\<rparr>) (Some dns_Model_zero)
     = (Some ''record set id not present'', Some dns_Model_zero)
   \<and> (\<exists>dm2. dns_mapFields (Some \<lparr>Rrset = Some (RecordSet_zero\<lparr>rs_Id := Some ''rs-2''\<rparr>)\<rparr>)
              (Some (dns_Model_zero\<lparr>d_ProjectId := StringValue ''p'', d_ZoneId := StringValue ''z'',
                                    d_RecordSetId := StringValue ''rs-1''\<rparr>))
            = (None, Some dm2)
          \<and> d_Id dm2 = StringValue ''p,z,rs-1'')"
proof -
  let ?r0 = "Some InstanceResponse_zero" and ?m0 = "Some argus_Model_zero"
  let ?r1 = "InstanceResponse_zero\<lparr>r_Id := Some ''i-2''\<rparr>"
  let ?m1 = "argus_Model_zero\<lparr>a_ProjectId := StringValue ''p'', a_InstanceId := StringValue ''i-1''\<rparr>"
  let ?d0 = "Some \<lparr>Rrset = Some RecordSet_zero\<rparr>" and ?dm0 = "Some dns_Model_zero"
  let ?rs1 = "RecordSet_zero\<lparr>rs_Id := Some ''rs-2''\<rparr>"
  let ?dm1 = "dns_Model_zero\<lparr>d_ProjectId := StringValue ''p'', d_ZoneId := StringValue ''z'',
                            d_RecordSetId := StringValue ''rs-1''\<rparr>"
  have a_err: "\<exists>e m'. argus_mapFields ?r0 ?m0 = Returns (Some e, m')"
    using mapFields_error_iff_no_input_or_no_id [of ?r0 ?m0, THEN conjunct1]
    by (simp add: InstanceResponse_zero_def argus_Model_zero_def ValueString_def)
  then obtain e m' where em: "argus_mapFields ?r0 ?m0 = Returns (Some e, m')" by blast
  have "m' = ?m0"
    using mapFields_error_iff_no_input_or_no_id [of ?r0 ?m0 e m', THEN conjunct2, THEN conjunct1] em
    by blast
  with em have a1: "argus_mapFields ?r0 ?m0 = Returns (Some ''instance id not present'', ?m0)"
    by (simp add: argus_mapFields_def InstanceResponse_zero_def argus_Model_zero_def ValueString_def)
  have "\<exists>m2. argus_mapFields (Some ?r1) (Some ?m1) = Returns (None, Some m2)"
    by (simp add: argus_mapFields_def argus_mapKnown_def InstanceResponse_zero_def
        argus_Model_zero_def ValueString_def StringValue_def)
  then obtain m2 where m2: "argus_mapFields (Some ?r1) (Some ?m1) = Returns (None, Some m2)"
    by blast
  have "a_Id m2 = StringValue (strings_Join
                      [ValueString (a_ProjectId ?m1), ValueString (a_InstanceId ?m1)] Separator)
          \<and> a_InstanceId m2 = StringValue (ValueString (a_InstanceId ?m1))"
    using mapFields_error_iff_no_input_or_no_id [where m = ?m1 and resp = ?r1 and mres = m2
        and rid = "''i-2''", THEN conjunct2, THEN conjunct2, THEN conjunct1] m2
    by (simp add: ValueString_def StringValue_def InstanceResponse_zero_def)
  then have a2: "a_Id m2 = StringValue ''p,i-1'' \<and> a_InstanceId m2 = StringValue ''i-1''"
    by (simp add: ValueString_def StringValue_def Separator_def argus_Model_zero_def)
  have d_err: "\<exists>e m'. dns_mapFields ?d0 ?dm0 = (Some e, m')"
    using mapFields_error_iff_no_input_or_no_id [where rr = ?d0 and dmodel = ?dm0,
        THEN conjunct2, THEN conjunct2, THEN conjunct2, THEN conjunct1]
    by (simp add: RecordSet_zero_def dns_Model_zero_def ValueString_def)
  then obtain de dm' where dem: "dns_mapFields ?d0 ?dm0 = (Some de, dm')" by blast
  have "dm' = ?dm0"
    using mapFields_error_iff_no_input_or_no_id [where rr = ?d0 and dmodel = ?dm0 and e = de
        and dm' = dm', THEN conjunct2, THEN conjunct2, THEN conjunct2, THEN conjunct2,
        THEN conjunct1] dem
    by blast
  with dem have d1: "dns_mapFields ?d0 ?dm0 = (Some ''record set id not present'', ?dm0)"
    by (simp add: dns_mapFields_def RecordSet_zero_def dns_Model_zero_def ValueString_def)
  have d2: "\<exists>dm2. dns_mapFields (Some \<lparr>Rrset = Some ?rs1\<rparr>) (Some ?dm1) = (None, Some dm2)
             \<and> d_Id dm2 = StringValue ''p,z,rs-1''"
    using mapFields_error_iff_no_input_or_no_id [where dm = ?dm1 and dresp = "\<lparr>Rrset = Some ?rs1\<rparr>"
        and rs = ?rs1 and rid = "''rs-2''", THEN conjunct2, THEN conjunct2, THEN conjunct2,
        THEN conjunct2, THEN conjunct2]
    by (simp add: ValueString_def StringValue_def Separator_def dns_Model_zero_def RecordSet_zero_def)
  from a1 m2 a2 d1 d2 show ?thesis by blast
qed

section \<open>Argus mapFields and the retention times\<close>

text \<open>Without an \<^verbatim>\<open>Instance\<close> in the response nothing is dereferenced.\<close>

lemma argus_mapFields_returns_without_Instance:
  "r_Instance resp = None \<Longrightarrow> argus_mapFields (Some resp) model \<noteq> Panics"
  by (auto simp: argus_mapFields_def argus_mapKnown_def Let_def split: option.splits)

text \<open>
  Claim C2 says that every dereference of an optional response field in \<^verbatim>\<open>mapFields\<close>
  follows a nil check, so that a response with an \<^verbatim>\<open>Instance\<close> whose retention time is
  nil is mapped without a panic. The Argus \<^verbatim>\<open>mapFields\<close> dereferences the three
  retention times as they are: for every response that carries an id and an
  \<^verbatim>\<open>Instance\<close> with one of them nil, and every model, the call panics.
\<close>

theorem argus_mapFields_panics_on_nil_retention:
  "argus_mapFields
     (Some (r\<lparr>r_Id := Some rid, r_Instance := Some (i\<lparr>i_MetricsRetentionTimeRaw := None\<rparr>)\<rparr>))
     (Some m) = Panics
   \<and> argus_mapFields
     (Some (r\<lparr>r_Id := Some rid, r_Instance := Some (i\<lparr>i_MetricsRetentionTime5m := None\<rparr>)\<rparr>))
     (Some m) = Panics
   \<and> argus_mapFields
     (Some (r\<lparr>r_Id := Some rid, r_Instance := Some (i\<lparr>i_MetricsRetentionTime1h := None\<rparr>)\<rparr>))
     (Some m) = Panics"
  by (simp add: argus_mapFields_def argus_mapKnown_def argus_mapInstance_def split: option.splits)

section \<open>Argus payloads\<close>

text \<open>
  Both payloads hold exactly the keys of the parameters, and the name and the plan id
  of the model.
\<close>

lemma argus_payload_keys_Name_PlanId:
  "\<exists>p f. argus_toCreatePayload (Some m) = Inr p \<and> cip_Parameter p = Some f
       \<and> dom f = dom (Map_Elements (a_Parameters m))
       \<and> cip_Name p = ValueStringPointer (a_Name m) \<and> cip_PlanId p = ValueStringPointer (a_PlanId m)"
  by (auto simp: argus_toCreatePayload_def Let_def dom_def)

lemma argus_update_payload_keys_Name_PlanId:
  "\<exists>p f. argus_toUpdatePayload (Some m) = Inr p \<and> uip_Parameter p = Some f
       \<and> dom f = dom (Map_Elements (a_Parameters m))
       \<and> uip_Name p = ValueStringPointer (a_Name m) \<and> uip_PlanId p = ValueStringPointer (a_PlanId m)"
  by (auto simp: argus_toUpdatePayload_def Let_def dom_def)

text \<open>
  Claim C5 says that the payload maps every key of the parameters to the string stored
  in the model. The payload functions go through \<^verbatim>\<open>String()\<close>, the rendering for logs:
  for a model whose parameters map \<open>k\<close> to the string \<open>v\<close>, both payloads map \<open>k\<close> to
  the three characters quote, \<open>v\<close>, quote.
\<close>

theorem argus_payload_parameter_is_quoted:
  "argus_toCreatePayload
     (Some (m\<lparr>a_Parameters := ValueStateKnown [''k'' \<mapsto> AttrString (StringValue ''v'')]\<rparr>))
     = Inr \<lparr>cip_Name = ValueStringPointer (a_Name m), cip_PlanId = ValueStringPointer (a_PlanId m),
            cip_Parameter = Some [''k'' \<mapsto> [CHR 0x22, CHR ''v'', CHR 0x22]]\<rparr>
   \<and> argus_toUpdatePayload
     (Some (m\<lparr>a_Parameters := ValueStateKnown [''k'' \<mapsto> AttrString (StringValue ''v'')]\<rparr>))
     = Inr \<lparr>uip_Name = ValueStringPointer (a_Name m), uip_PlanId = ValueStringPointer (a_PlanId m),
            uip_Parameter = Some [''k'' \<mapsto> [CHR 0x22, CHR ''v'', CHR 0x22]]\<rparr>
   \<and> [CHR 0x22, CHR ''v'', CHR 0x22] \<noteq> ''v''"
  by (simp add: argus_toCreatePayload_def argus_toUpdatePayload_def Map_Elements_def fun_eq_iff
      attr_String_def StringValue_def strconv_Quote_def quoteByte_def)

section \<open>DNS mapFields: the id and the key attributes\<close>

text \<open>
  After a successful \<^verbatim>\<open>mapFields\<close> the id of the Argus model is the composite key of its
  key attributes. The DNS \<^verbatim>\<open>mapFields\<close> keeps \<^verbatim>\<open>project_id\<close> and \<^verbatim>\<open>zone_id\<close>, and its id is
  the composite key when the response carries an id and the model holds none or the
  same.
\<close>

lemma argus_mapFields_Id_is_composite_key:
  "argus_mapFields r model = Returns (None, Some m') \<Longrightarrow>
     a_Id m' = StringValue (strings_Join
                 [ValueString (a_ProjectId m'), ValueString (a_InstanceId m')] Separator)"
  by (auto simp: argus_mapFields_def ValueString_def StringValue_def
           dest!: argus_mapKnown_ids split: option.splits if_splits)

lemma dns_mapFields_keeps_project_and_zone:
  "dns_mapFields r (Some m) = (None, Some m') \<Longrightarrow>
     d_ProjectId m' = d_ProjectId m \<and> d_ZoneId m' = d_ZoneId m"
  by (auto simp: dns_mapFields_def dns_mapKnown_def Let_def split: option.splits if_splits)

lemma dns_mapFields_Id_is_composite_key_when_ids_agree:
  "dns_mapFields (Some resp) (Some m) = (None, Some m') \<Longrightarrow> Rrset resp = Some rs \<Longrightarrow>
   rs_Id rs = Some i \<Longrightarrow> ValueString (d_RecordSetId m) = [] \<or> ValueString (d_RecordSetId m) = i \<Longrightarrow>
     d_Id m' = StringValue (strings_Join
                 [ValueString (d_ProjectId m'), ValueString (d_ZoneId m'),
                  ValueString (d_RecordSetId m')] Separator)"
  by (auto simp: dns_mapFields_def dns_mapKnown_def Let_def ValueString_def StringValue_def
           StringPointerValue_def split: option.splits if_splits)

text \<open>
  Claim C7 says that after a successful \<^verbatim>\<open>mapFields\<close> the id is the composite key of the
  model's key attributes. The DNS \<^verbatim>\<open>mapFields\<close> builds the id from the model's own
  record set id when it has one, and then overwrites \<^verbatim>\<open>record_set_id\<close> with the id of the
  response. For a model with \<^verbatim>\<open>record_set_id\<close> \<open>rs-1\<close> the call succeeds with id
  \<open>p,z,rs-1\<close>; with a response without id \<^verbatim>\<open>record_set_id\<close> is then null and the key
  attributes join to \<open>p,z,\<close>, with a response with id \<open>rs-2\<close> they join to \<open>p,z,rs-2\<close>.
\<close>

theorem dns_mapFields_id_differs_from_key_attributes:
  "(case dns_mapFields (Some \<lparr>Rrset = Some (rs\<lparr>rs_Id := None\<rparr>)\<rparr>)
           (Some (m\<lparr>d_ProjectId := StringValue ''p'', d_ZoneId := StringValue ''z'',
                    d_RecordSetId := StringValue ''rs-1''\<rparr>)) of
      (None, Some m') \<Rightarrow>
         d_Id m' = StringValue ''p,z,rs-1''
         \<and> d_ProjectId m' = StringValue ''p'' \<and> d_ZoneId m' = StringValue ''z''
         \<and> d_RecordSetId m' = ValueStateNull
         \<and> strings_Join [ValueString (d_ProjectId m'), ValueString (d_ZoneId m'),
                          ValueString (d_RecordSetId m')] Separator = ''p,z,''
    | _ \<Rightarrow> False)
   \<and> (case dns_mapFields (Some \<lparr>Rrset = Some (rs\<lparr>rs_Id := Some ''rs-2''\<rparr>)\<rparr>)
           (Some (m\<lparr>d_ProjectId := StringValue ''p'', d_ZoneId := StringValue ''z'',
                    d_RecordSetId := StringValue ''rs-1''\<rparr>)) of
      (None, Some m') \<Rightarrow>
         d_Id m' = StringValue ''p,z,rs-1''
         \<and> d_ProjectId m' = StringValue ''p'' \<and> d_ZoneId m' = StringValue ''z''
         \<and> d_RecordSetId m' = StringValue ''rs-2''
         \<and> strings_Join [ValueString (d_ProjectId m'), ValueString (d_ZoneId m'),
                          ValueString (d_RecordSetId m')] Separator = ''p,z,rs-2''
    | _ \<Rightarrow> False)"
  by (simp add: dns_mapFields_def dns_mapKnown_def ValueString_def StringValue_def
      StringPointerValue_def Separator_def)

section \<open>DNS: reading a record set and sending it back\<close>

text \<open>
  Claim C9. For a response whose record set has an id, a list of records, a ttl, a name
  and a comment, \<^verbatim>\<open>mapFields\<close> onto the zero model succeeds, \<^verbatim>\<open>toUpdatePayload\<close> of the
  result succeeds, and the payload's records (in order, by content), ttl, name and
  comment are those of the response.
\<close>

theorem dns_read_update_round_trip:
  "rs_Id rs = Some i \<and> rs_Records rs = Some recs \<and> rs_Ttl rs = Some t
   \<and> rs_Name rs = Some n \<and> rs_Comment rs = Some c \<longrightarrow>
   (\<exists>m' p. dns_mapFields (Some \<lparr>Rrset = Some rs\<rparr>) (Some dns_Model_zero) = (None, Some m')
      \<and> dns_toUpdatePayload (Some m') = Inr p
      \<and> urp_Records p = Some (map (\<lambda>record. \<lparr>rp_Content = Content record\<rparr>) recs)
      \<and> urp_Ttl p = Some t \<and> urp_Name p = Some n \<and> urp_Comment p = Some c)"
  by (simp add: dns_mapFields_def dns_Model_zero_def ValueString_def dns_mapKnown_def
      dns_toUpdatePayload_def List_Elements_def recordPayloads_map ToPtrInt32_ToTypeInt64)

theorem dns_read_update_round_trip_witness:
  "\<exists>m' p. dns_mapFields
       (Some \<lparr>Rrset = Some (RecordSet_zero\<lparr>rs_Id := Some ''rs-1'',
          rs_Records := Some [\<lparr>Content = Some ''1.2.3.4''\<rparr>, \<lparr>Content = Some ''5.6.7.8''\<rparr>],
          rs_Ttl := Some 3600, rs_Name := Some ''a.example.com'', rs_Comment := Some ''c''\<rparr>)\<rparr>)
       (Some dns_Model_zero) = (None, Some m')
      \<and> dns_toUpdatePayload (Some m') = Inr p
      \<and> urp_Records p = Some [\<lparr>rp_Content = Some ''1.2.3.4''\<rparr>, \<lparr>rp_Content = Some ''5.6.7.8''\<rparr>]
      \<and> urp_Ttl p = Some 3600 \<and> urp_Name p = Some ''a.example.com'' \<and> urp_Comment p = Some ''c''"
  using dns_read_update_round_trip [of "RecordSet_zero\<lparr>rs_Id := Some ''rs-1'',
          rs_Records := Some [\<lparr>Content = Some ''1.2.3.4''\<rparr>, \<lparr>Content = Some ''5.6.7.8''\<rparr>],
          rs_Ttl := Some 3600, rs_Name := Some ''a.example.com'', rs_Comment := Some ''c''\<rparr>"
      "''rs-1''" "[\<lparr>Content = Some ''1.2.3.4''\<rparr>, \<lparr>Content = Some ''5.6.7.8''\<rparr>]" 3600
      "''a.example.com''" "''c''"]
  by (simp add: RecordSet_zero_def)

section \<open>Argus Create and Update after loadPlanId\<close>

text \<open>
  Claim C1 says that \<^verbatim>\<open>Create\<close> and \<^verbatim>\<open>Update\<close> return when \<^verbatim>\<open>loadPlanId\<close> fails, before
  the payload is built and sent. \<^verbatim>\<open>loadPlanId\<close> adds its error to \<^verbatim>\<open>resp.Diagnostics\<close>, and
  the test that follows reads the local \<open>diags\<close>: when \<^verbatim>\<open>GetPlans\<close> fails, or when no plan
  matches, the run goes on and calls \<^verbatim>\<open>CreateInstance\<close> (\<^verbatim>\<open>UpdateInstance\<close>) with the
  payload.
\<close>

theorem argus_Create_Update_go_on_after_loadPlanId_failed:
  "argus_Create
     (client\<lparr>GetPlansExecute := \<lambda>projectId. (None, Some e),
             CreateInstanceExecute := \<lambda>projectId payload. (None, Some e')\<rparr>)
     (model, []) \<lparr>Diagnostics = [], State = None\<rparr>
   = finished
       [GetPlans (ValueString (a_ProjectId model)),
        CreateInstance (ValueString (a_ProjectId model))
          \<lparr>cip_Name = ValueStringPointer (a_Name model),
           cip_PlanId = ValueStringPointer (a_PlanId model),
           cip_Parameter = Some (\<lambda>k. map_option attr_String (Map_Elements (a_Parameters model) k))\<rparr>]
       \<lparr>Diagnostics = [ErrorDiagnostic ''Failed to list argus plans'' e,
                       ErrorDiagnostic ''Error creating instance'' (''Calling API: '' @ e')],
        State = None\<rparr>
   \<and> argus_Create
     (client\<lparr>GetPlansExecute := \<lambda>projectId. (Some \<lparr>Plans = Some []\<rparr>, None),
             CreateInstanceExecute := \<lambda>projectId payload. (None, Some e')\<rparr>)
     (model\<lparr>a_PlanId := ValueStateNull\<rparr>, []) \<lparr>Diagnostics = [], State = None\<rparr>
   = finished
       [GetPlans (ValueString (a_ProjectId model)),
        CreateInstance (ValueString (a_ProjectId model))
          \<lparr>cip_Name = ValueStringPointer (a_Name model),
           cip_PlanId = None,
           cip_Parameter = Some (\<lambda>k. map_option attr_String (Map_Elements (a_Parameters model) k))\<rparr>]
       \<lparr>Diagnostics = [ErrorDiagnostic ''Invalid plan_name''
                         (''Couldn'' @ [CHR 0x27] @ ''t find plan_name '' @ [CHR 0x27]
                            @ ValueString (a_PlanName model) @ [CHR 0x27]
                            @ '', available names are:''),
                       ErrorDiagnostic ''Error creating instance'' (''Calling API: '' @ e')],
        State = None\<rparr>
   \<and> argus_Update
     (client\<lparr>GetPlansExecute := \<lambda>projectId. (None, Some e),
             UpdateInstanceExecute := \<lambda>instanceId projectId payload. Some e'\<rparr>)
     (model, []) \<lparr>Diagnostics = [], State = None\<rparr>
   = finished
       [GetPlans (ValueString (a_ProjectId model)),
        UpdateInstance (ValueString (a_InstanceId model)) (ValueString (a_ProjectId model))
          \<lparr>uip_Name = ValueStringPointer (a_Name model),
           uip_PlanId = ValueStringPointer (a_PlanId model),
           uip_Parameter = Some (\<lambda>k. map_option attr_String (Map_Elements (a_Parameters model) k))\<rparr>]
       \<lparr>Diagnostics = [ErrorDiagnostic ''Failed to list argus plans'' e,
                       ErrorDiagnostic ''Error updating instance''
                         (''project id = '' @ ValueString (a_ProjectId model) @ '', instance Id = ''
                            @ ValueString (a_InstanceId model) @ '', '' @ e')],
        State = None\<rparr>"
  by (simp add: argus_Create_def argus_Update_def loadPlanId_def argus_Create_send_def
      argus_toCreatePayload_def argus_toUpdatePayload_def HasError_def AddError_def addError_def
      Let_def ValueString_def ValueStringPointer_def)

section \<open>DNS Delete after an error of DeleteRecordSet\<close>

text \<open>
  The Argus \<^verbatim>\<open>Delete\<close> stops after an error of \<^verbatim>\<open>DeleteInstance\<close>, and a \<^verbatim>\<open>Read\<close> makes
  one call.
\<close>

lemma argus_Delete_stops_after_failed_DeleteInstance:
  "DeleteInstanceExecute client (ValueString (a_InstanceId m)) (ValueString (a_ProjectId m)) = Some e
   \<Longrightarrow> \<not> HasError (Append (Diagnostics resp) diags)
   \<Longrightarrow> calls (argus_Delete client (m, diags) resp)
         = [DeleteInstance (ValueString (a_InstanceId m)) (ValueString (a_ProjectId m))]
       \<and> HasError (Diagnostics (response (argus_Delete client (m, diags) resp)))"
  by (simp add: argus_Delete_def Let_def finished_def addError_def AddError_HasError)

lemma argus_Read_calls:
  "calls (argus_Read client (m, diags) resp)
     = (if HasError (Append (Diagnostics resp) diags) then []
        else [GetInstance (ValueString (a_InstanceId m)) (ValueString (a_ProjectId m))])"
  by (simp add: argus_Read_def Let_def finished_def crashed_def
      split: prod.splits option.splits returned.splits)

lemma dns_Read_calls:
  "calls (dns_Read client (m, diags) resp)
     = (if HasError (Append (Diagnostics resp) diags) then []
        else [GetRecordSet (ValueString (d_ProjectId m)) (ValueString (d_ZoneId m))
                (ValueString (d_RecordSetId m))])"
  by (simp add: dns_Read_def Let_def finished_def split: prod.splits option.splits)

text \<open>
  Claim C3 says that no SDK call follows one that returned an error, and that the wait
  handler is not called when \<^verbatim>\<open>DeleteRecordSet\<close> fails. The DNS \<^verbatim>\<open>Delete\<close> adds the
  diagnostic for the error and then calls the wait handler.
\<close>

theorem dns_Delete_waits_after_failed_DeleteRecordSet:
  "dns_Delete
     (client\<lparr>DeleteRecordSetExecute := \<lambda>projectId zoneId recordSetId. Some e,
             DeleteRecordSetWait := \<lambda>projectId zoneId recordSetId timeout. None\<rparr>)
     (model, []) \<lparr>Diagnostics = [], State = st\<rparr>
   = finished
       [DeleteRecordSet (ValueString (d_ProjectId model)) (ValueString (d_ZoneId model))
          (ValueString (d_RecordSetId model)),
        DeleteRecordSetWaitHandler (ValueString (d_ProjectId model)) (ValueString (d_ZoneId model))
          (ValueString (d_RecordSetId model)) (1 * time_Minute)]
       \<lparr>Diagnostics = [ErrorDiagnostic ''Error deleting recordset'' e], State = st\<rparr>"
  by (simp add: dns_Delete_def HasError_def LogAndAddError_def AddError_def Let_def)

section \<open>Read of the DNS data source and its input attributes\<close>

text \<open>
  Claim C10 says that after a successful \<^verbatim>\<open>Read\<close> of the data source the attributes
  \<^verbatim>\<open>project_id\<close>, \<^verbatim>\<open>zone_id\<close> and \<^verbatim>\<open>record_set_id\<close> are those of the configuration.
  \<^verbatim>\<open>mapFields\<close> keeps the first two and writes the id of the response to the third: for the
  configuration \<open>p\<close>, \<open>z\<close>, \<open>rs-1\<close> and a record set without an id the run ends with no
  diagnostic and a state whose \<^verbatim>\<open>record_set_id\<close> is null.
\<close>

theorem dns_DataSource_Read_overwrites_record_set_id:
  "(let run = dns_DataSource_Read
       (client\<lparr>GetRecordSetExecute := \<lambda>projectId zoneId recordSetId.
                  (Some \<lparr>Rrset = Some (rs\<lparr>rs_Id := None\<rparr>)\<rparr>, None)\<rparr>)
       (config\<lparr>d_ProjectId := StringValue ''p'', d_ZoneId := StringValue ''z'',
               d_RecordSetId := StringValue ''rs-1''\<rparr>, [])
       \<lparr>Diagnostics = [], State = None\<rparr>
    in calls run = [GetRecordSet ''p'' ''z'' ''rs-1'']
       \<and> \<not> panicked run
       \<and> Diagnostics (response run) = []
       \<and> (case State (response run) of
             None \<Rightarrow> False
           | Some state \<Rightarrow>
               d_ProjectId state = StringValue ''p'' \<and> d_ZoneId state = StringValue ''z''
               \<and> d_Id state = StringValue ''p,z,rs-1''
               \<and> d_RecordSetId state = ValueStateNull))"
  by (simp add: dns_DataSource_Read_def HasError_def dns_mapFields_def dns_mapKnown_def
      ValueString_def StringValue_def StringPointerValue_def Separator_def finished_def Let_def)

section \<open>Every accepted asynchronous call is followed by one wait with a fixed timeout\<close>

lemma loadPlanId_calls: "fst (loadPlanId client d m) = [GetPlans (ValueString (a_ProjectId m))]"
  by (simp add: loadPlanId_def Let_def split: prod.splits option.splits)

lemma argus_Create_wait_calls:
  "calls (argus_Create_wait client p i m cs resp)
     = cs @ [CreateInstanceWaitHandler i p (20 * time_Minute)]"
  by (simp add: argus_Create_wait_def Let_def finished_def crashed_def
      split: prod.splits option.splits wait_result.splits returned.splits)

lemma argus_Create_send_calls:
  "calls (argus_Create_send client p m cs resp)
     = cs @ (case argus_toCreatePayload (Some m) of
               Inl e \<Rightarrow> []
             | Inr payload \<Rightarrow>
                 CreateInstance p payload #
                   (case CreateInstanceExecute client p payload of
                      (Some created, None) \<Rightarrow>
                        (case InstanceId created of
                           None \<Rightarrow> []
                         | Some i \<Rightarrow> if i = [] then [] else [CreateInstanceWaitHandler i p (20 * time_Minute)])
                    | _ \<Rightarrow> []))"
  by (simp add: argus_Create_send_def argus_Create_wait_calls Let_def finished_def crashed_def
      split: prod.splits option.splits sum.splits)

lemma argus_Create_calls:
  "calls (argus_Create client (m, diags) resp)
     = (if HasError (Append (Diagnostics resp) diags) then []
        else case loadPlanId client (Append (Diagnostics resp) diags) m of
               (cs, Panics) \<Rightarrow> cs
             | (cs, Returns (d2, m2)) \<Rightarrow>
                 if HasError diags then cs
                 else calls (argus_Create_send client (ValueString (a_ProjectId m)) m2 cs
                        (resp\<lparr>Diagnostics := d2\<rparr>)))"
  by (simp add: argus_Create_def Let_def finished_def crashed_def
      split: prod.splits returned.splits)

lemma argus_Create_one_wait:
  "filter argus_isWait (calls (argus_Create client plan resp)) = []
   \<or> (\<exists>i p. filter argus_isWait (calls (argus_Create client plan resp))
               = [CreateInstanceWaitHandler i p (20 * time_Minute)])"
  using loadPlanId_calls [of client "Append (Diagnostics resp) (snd plan)" "fst plan"]
  by (cases plan)
     (auto simp: argus_Create_calls argus_Create_send_calls
           split: prod.splits returned.splits sum.splits option.splits)

lemma argus_Create_followed:
  "CreateInstance p payload \<in> set (calls (argus_Create client plan resp))
   \<Longrightarrow> CreateInstanceExecute client p payload = (Some created, None)
   \<Longrightarrow> InstanceId created = Some i \<Longrightarrow> i \<noteq> []
   \<Longrightarrow> follows (CreateInstance p payload) (CreateInstanceWaitHandler i p (20 * time_Minute))
         (calls (argus_Create client plan resp))
       \<and> filter argus_isWait (calls (argus_Create client plan resp))
           = [CreateInstanceWaitHandler i p (20 * time_Minute)]"
  using loadPlanId_calls [of client "Append (Diagnostics resp) (snd plan)" "fst plan"]
  by (cases plan)
     (auto simp: argus_Create_calls argus_Create_send_calls
           split: prod.splits returned.splits sum.splits option.splits if_splits)

lemma argus_Update_wait_calls:
  "calls (argus_Update_wait client p i m cs resp)
     = cs @ [UpdateInstanceWaitHandler i p (20 * time_Minute)]"
  by (simp add: argus_Update_wait_def Let_def finished_def crashed_def
      split: prod.splits option.splits wait_result.splits returned.splits)

lemma argus_Update_calls:
  "calls (argus_Update client (m, diags) resp)
     = (if HasError (Append (Diagnostics resp) diags) then []
        else case loadPlanId client (Append (Diagnostics resp) diags) m of
               (cs, Panics) \<Rightarrow> cs
             | (cs, Returns (d2, m2)) \<Rightarrow>
                 if HasError diags then cs
                 else (case argus_toUpdatePayload (Some m2) of
                         Inl e \<Rightarrow> cs
                       | Inr payload \<Rightarrow>
                           cs @ UpdateInstance (ValueString (a_InstanceId m)) (ValueString (a_ProjectId m)) payload #
                             (case UpdateInstanceExecute client (ValueString (a_InstanceId m))
                                     (ValueString (a_ProjectId m)) payload of
                                Some e \<Rightarrow> []
                              | None \<Rightarrow> [UpdateInstanceWaitHandler (ValueString (a_InstanceId m))
                                           (ValueString (a_ProjectId m)) (20 * time_Minute)])))"
  by (simp add: argus_Update_def argus_Update_wait_calls Let_def finished_def crashed_def
      split: prod.splits returned.splits sum.splits option.splits)

lemma argus_Update_one_wait:
  "filter argus_isWait (calls (argus_Update client plan resp)) = []
   \<or> (\<exists>i p. filter argus_isWait (calls (argus_Update client plan resp))
               = [UpdateInstanceWaitHandler i p (20 * time_Minute)])"
  using loadPlanId_calls [of client "Append (Diagnostics resp) (snd plan)" "fst plan"]
  by (cases plan)
     (auto simp: argus_Update_calls split: prod.splits returned.splits sum.splits option.splits)

lemma argus_Update_followed:
  "UpdateInstance i p payload \<in> set (calls (argus_Update client plan resp))
   \<Longrightarrow> UpdateInstanceExecute client i p payload = None
   \<Longrightarrow> follows (UpdateInstance i p payload) (UpdateInstanceWaitHandler i p (20 * time_Minute))
         (calls (argus_Update client plan resp))
       \<and> filter argus_isWait (calls (argus_Update client plan resp))
           = [UpdateInstanceWaitHandler i p (20 * time_Minute)]"
  using loadPlanId_calls [of client "Append (Diagnostics resp) (snd plan)" "fst plan"]
  by (cases plan)
     (auto simp: argus_Update_calls
           split: prod.splits returned.splits sum.splits option.splits if_splits)

lemma argus_Delete_calls:
  "calls (argus_Delete client (m, diags) resp)
     = (if HasError (Append (Diagnostics resp) diags) then []
        else DeleteInstance (ValueString (a_InstanceId m)) (ValueString (a_ProjectId m)) #
               (case DeleteInstanceExecute client (ValueString (a_InstanceId m))
                       (ValueString (a_ProjectId m)) of
                  Some e \<Rightarrow> []
                | None \<Rightarrow> [DeleteInstanceWaitHandler (ValueString (a_InstanceId m))
                             (ValueString (a_ProjectId m)) (10 * time_Minute)]))"
  by (simp add: argus_Delete_def Let_def finished_def split: option.splits)

lemma argus_Delete_one_wait:
  "filter argus_isWait (calls (argus_Delete client state resp)) = []
   \<or> (\<exists>i p. filter argus_isWait (calls (argus_Delete client state resp))
               = [DeleteInstanceWaitHandler i p (10 * time_Minute)])"
  by (cases state) (auto simp: argus_Delete_calls split: option.splits)

lemma argus_Delete_followed:
  "DeleteInstance i p \<in> set (calls (argus_Delete client state resp))
   \<Longrightarrow> DeleteInstanceExecute client i p = None
   \<Longrightarrow> follows (DeleteInstance i p) (DeleteInstanceWaitHandler i p (10 * time_Minute))
         (calls (argus_Delete client state resp))
       \<and> filter argus_isWait (calls (argus_Delete client state resp))
           = [DeleteInstanceWaitHandler i p (10 * time_Minute)]"
  by (cases state) (auto simp: argus_Delete_calls split: option.splits if_splits)

lemma dns_Create_wait_calls:
  "calls (dns_Create_wait client p z i m cs resp)
     = cs @ [CreateRecordSetWaitHandler p z i (1 * time_Minute)]"
  by (simp add: dns_Create_wait_def Let_def finished_def
      split: prod.splits option.splits wait_result.splits)

lemma dns_Create_calls:
  "calls (dns_Create client (m, diags) resp)
     = (if HasError (Append (Diagnostics resp) diags) then []
        else case dns_toCreatePayload (Some m) of
               Inl e \<Rightarrow> []
             | Inr payload \<Rightarrow>
                 CreateRecordSet (ValueString (d_ProjectId m)) (ValueString (d_ZoneId m)) payload #
                   (case CreateRecordSetExecute client (ValueString (d_ProjectId m))
                           (ValueString (d_ZoneId m)) payload of
                      (Some created, None) \<Rightarrow>
                        (case Rrset created of
                           None \<Rightarrow> []
                         | Some rs \<Rightarrow>
                             (case rs_Id rs of
                                None \<Rightarrow> []
                              | Some i \<Rightarrow> [CreateRecordSetWaitHandler (ValueString (d_ProjectId m))
                                            (ValueString (d_ZoneId m)) i (1 * time_Minute)]))
                    | _ \<Rightarrow> []))"
  by (simp add: dns_Create_def dns_Create_wait_calls Let_def finished_def crashed_def
      split: prod.splits sum.splits option.splits)

lemma dns_Create_one_wait:
  "filter dns_isWait (calls (dns_Create client plan resp)) = []
   \<or> (\<exists>p z i. filter dns_isWait (calls (dns_Create client plan resp))
               = [CreateRecordSetWaitHandler p z i (1 * time_Minute)])"
  by (cases plan) (auto simp: dns_Create_calls split: prod.splits sum.splits option.splits)

lemma dns_Create_followed:
  "CreateRecordSet p z payload \<in> set (calls (dns_Create client plan resp))
   \<Longrightarrow> CreateRecordSetExecute client p z payload = (Some created, None)
   \<Longrightarrow> Rrset created = Some rs \<Longrightarrow> rs_Id rs = Some i
   \<Longrightarrow> follows (CreateRecordSet p z payload) (CreateRecordSetWaitHandler p z i (1 * time_Minute))
         (calls (dns_Create client plan resp))
       \<and> filter dns_isWait (calls (dns_Create client plan resp))
           = [CreateRecordSetWaitHandler p z i (1 * time_Minute)]"
  by (cases plan)
     (auto simp: dns_Create_calls split: prod.splits sum.splits option.splits if_splits)

lemma dns_Update_wait_calls:
  "calls (dns_Update_wait client p z i m cs resp)
     = cs @ UpdateRecordSetWaitHandler p z i (1 * time_Minute) #
         (case UpdateRecordSetWait client p z i (1 * time_Minute) of
            (ResponsePtr got, None) \<Rightarrow> [GetRecordSet p z i]
          | _ \<Rightarrow> [])"
  by (simp add: dns_Update_wait_def Let_def finished_def
      split: prod.splits option.splits wait_result.splits)

lemma dns_Update_calls:
  "calls (dns_Update client (m, diags) resp)
     = (if HasError (Append (Diagnostics resp) diags) then []
        else case dns_toUpdatePayload (Some m) of
               Inl e \<Rightarrow> []
             | Inr payload \<Rightarrow>
                 UpdateRecordSet (ValueString (d_ProjectId m)) (ValueString (d_ZoneId m))
                     (ValueString (d_RecordSetId m)) payload #
                   (case UpdateRecordSetExecute client (ValueString (d_ProjectId m))
                           (ValueString (d_ZoneId m)) (ValueString (d_RecordSetId m)) payload of
                      Some e \<Rightarrow> []
                    | None \<Rightarrow>
                        UpdateRecordSetWaitHandler (ValueString (d_ProjectId m))
                            (ValueString (d_ZoneId m)) (ValueString (d_RecordSetId m)) (1 * time_Minute) #
                          (case UpdateRecordSetWait client (ValueString (d_ProjectId m))
                                  (ValueString (d_ZoneId m)) (ValueString (d_RecordSetId m))
                                  (1 * time_Minute) of
                             (ResponsePtr got, None) \<Rightarrow>
                               [GetRecordSet (ValueString (d_ProjectId m)) (ValueString (d_ZoneId m))
                                  (ValueString (d_RecordSetId m))]
                           | _ \<Rightarrow> [])))"
  by (simp add: dns_Update_def dns_Update_wait_calls Let_def finished_def
      split: prod.splits sum.splits option.splits)

lemma dns_Update_one_wait:
  "filter dns_isWait (calls (dns_Update client plan resp)) = []
   \<or> (\<exists>p z i. filter dns_isWait (calls (dns_Update client plan resp))
               = [UpdateRecordSetWaitHandler p z i (1 * time_Minute)])"
  by (cases plan)
     (auto simp: dns_Update_calls split: prod.splits sum.splits option.splits wait_result.splits)

lemma dns_Update_followed:
  "UpdateRecordSet p z i payload \<in> set (calls (dns_Update client plan resp))
   \<Longrightarrow> UpdateRecordSetExecute client p z i payload = None
   \<Longrightarrow> follows (UpdateRecordSet p z i payload) (UpdateRecordSetWaitHandler p z i (1 * time_Minute))
         (calls (dns_Update client plan resp))
       \<and> filter dns_isWait (calls (dns_Update client plan resp))
           = [UpdateRecordSetWaitHandler p z i (1 * time_Minute)]"
  by (cases plan)
     (auto simp: dns_Update_calls
           split: prod.splits sum.splits option.splits wait_result.splits if_splits)

lemma dns_Delete_calls:
  "calls (dns_Delete client (m, diags) resp)
     = (if HasError (Append (Diagnostics resp) diags) then []
        else [DeleteRecordSet (ValueString (d_ProjectId m)) (ValueString (d_ZoneId m))
                (ValueString (d_RecordSetId m)),
              DeleteRecordSetWaitHandler (ValueString (d_ProjectId m)) (ValueString (d_ZoneId m))
                (ValueString (d_RecordSetId m)) (1 * time_Minute)])"
  by (simp add: dns_Delete_def Let_def finished_def split: option.splits)

lemma dns_Delete_one_wait:
  "filter dns_isWait (calls (dns_Delete client state resp)) = []
   \<or> (\<exists>p z i. filter dns_isWait (calls (dns_Delete client state resp))
               = [DeleteRecordSetWaitHandler p z i (1 * time_Minute)])"
  by (cases state) (auto simp: dns_Delete_calls)

lemma dns_Delete_followed:
  "DeleteRecordSet p z i \<in> set (calls (dns_Delete client state resp))
   \<Longrightarrow> follows (DeleteRecordSet p z i) (DeleteRecordSetWaitHandler p z i (1 * time_Minute))
         (calls (dns_Delete client state resp))
       \<and> filter dns_isWait (calls (dns_Delete client state resp))
           = [DeleteRecordSetWaitHandler p z i (1 * time_Minute)]"
  by (cases state) (auto simp: dns_Delete_calls split: if_splits)

text \<open>
  Claim C8. In every run of \<^verbatim>\<open>Create\<close>, \<^verbatim>\<open>Update\<close> and \<^verbatim>\<open>Delete\<close> of either resource
  the wait handler is invoked at most once, and only with the fixed timeout: 20 minutes
  for the Argus create and update, 10 minutes for the Argus delete, 1 minute for the
  three DNS operations. Whenever the asynchronous call of the run was accepted (it was
  made and returned no error, a create also the new id), the wait handler is the next
  call, for that same entity, and it is the only wait of the run.
\<close>

theorem wait_handler_follows_async_call_with_fixed_timeout:
  "(filter argus_isWait (calls (argus_Create client plan resp)) = []
      \<or> (\<exists>i p. filter argus_isWait (calls (argus_Create client plan resp))
                  = [CreateInstanceWaitHandler i p (20 * time_Minute)]))
   \<and> (CreateInstance p payload \<in> set (calls (argus_Create client plan resp))
        \<and> CreateInstanceExecute client p payload = (Some created, None)
        \<and> InstanceId created = Some i \<and> i \<noteq> [] \<longrightarrow>
          follows (CreateInstance p payload) (CreateInstanceWaitHandler i p (20 * time_Minute))
            (calls (argus_Create client plan resp))
          \<and> filter argus_isWait (calls (argus_Create client plan resp))
              = [CreateInstanceWaitHandler i p (20 * time_Minute)])
   \<and> (filter argus_isWait (calls (argus_Update client plan resp)) = []
      \<or> (\<exists>i p. filter argus_isWait (calls (argus_Update client plan resp))
                  = [UpdateInstanceWaitHandler i p (20 * time_Minute)]))
   \<and> (UpdateInstance i p upayload \<in> set (calls (argus_Update client plan resp))
        \<and> UpdateInstanceExecute client i p upayload = None \<longrightarrow>
          follows (UpdateInstance i p upayload) (UpdateInstanceWaitHandler i p (20 * time_Minute))
            (calls (argus_Update client plan resp))
          \<and> filter argus_isWait (calls (argus_Update client plan resp))
              = [UpdateInstanceWaitHandler i p (20 * time_Minute)])
   \<and> (filter argus_isWait (calls (argus_Delete client plan resp)) = []
      \<or> (\<exists>i p. filter argus_isWait (calls (argus_Delete client plan resp))
                  = [DeleteInstanceWaitHandler i p (10 * time_Minute)]))
   \<and> (DeleteInstance i p \<in> set (calls (argus_Delete client plan resp))
        \<and> DeleteInstanceExecute client i p = None \<longrightarrow>
          follows (DeleteInstance i p) (DeleteInstanceWaitHandler i p (10 * time_Minute))
            (calls (argus_Delete client plan resp))
          \<and> filter argus_isWait (calls (argus_Delete client plan resp))
              = [DeleteInstanceWaitHandler i p (10 * time_Minute)])
   \<and> (filter dns_isWait (calls (dns_Create dclient dplan dresp)) = []
      \<or> (\<exists>p z i. filter dns_isWait (calls (dns_Create dclient dplan dresp))
                  = [CreateRecordSetWaitHandler p z i (1 * time_Minute)]))
   \<and> (CreateRecordSet p z dpayload \<in> set (calls (dns_Create dclient dplan dresp))
        \<and> CreateRecordSetExecute dclient p z dpayload = (Some dcreated, None)
        \<and> Rrset dcreated = Some rs \<and> rs_Id rs = Some rid \<longrightarrow>
          follows (CreateRecordSet p z dpayload) (CreateRecordSetWaitHandler p z rid (1 * time_Minute))
            (calls (dns_Create dclient dplan dresp))
          \<and> filter dns_isWait (calls (dns_Create dclient dplan dresp))
              = [CreateRecordSetWaitHandler p z rid (1 * time_Minute)])
   \<and> (filter dns_isWait (calls (dns_Update dclient dplan dresp)) = []
      \<or> (\<exists>p z i. filter dns_isWait (calls (dns_Update dclient dplan dresp))
                  = [UpdateRecordSetWaitHandler p z i (1 * time_Minute)]))
   \<and> (UpdateRecordSet p z rid dupayload \<in> set (calls (dns_Update dclient dplan dresp))
        \<and> UpdateRecordSetExecute dclient p z rid dupayload = None \<longrightarrow>
          follows (UpdateRecordSet p z rid dupayload)
            (UpdateRecordSetWaitHandler p z rid (1 * time_Minute))
            (calls (dns_Update dclient dplan dresp))
          \<and> filter dns_isWait (calls (dns_Update dclient dplan dresp))
              = [UpdateRecordSetWaitHandler p z rid (1 * time_Minute)])
   \<and> (filter dns_isWait (calls (dns_Delete dclient dplan dresp)) = []
      \<or> (\<exists>p z i. filter dns_isWait (calls (dns_Delete dclient dplan dresp))
                  = [DeleteRecordSetWaitHandler p z i (1 * time_Minute)]))
   \<and> (DeleteRecordSet p z rid \<in> set (calls (dns_Delete dclient dplan dresp))
        \<and> DeleteRecordSetExecute dclient p z rid = None \<longrightarrow>
          follows (DeleteRecordSet p z rid) (DeleteRecordSetWaitHandler p z rid (1 * time_Minute))
            (calls (dns_Delete dclient dplan dresp))
          \<and> filter dns_isWait (calls (dns_Delete dclient dplan dresp))
              = [DeleteRecordSetWaitHandler p z rid (1 * time_Minute)])"
  apply (intro conjI)
  subgoal by (rule argus_Create_one_wait)
  subgoal using argus_Create_followed [of p payload client plan resp created i] by blast
  subgoal by (rule argus_Update_one_wait)
  subgoal using argus_Update_followed [of i p upayload client plan resp] by blast
  subgoal by (rule argus_Delete_one_wait)
  subgoal using argus_Delete_followed [of i p client plan resp] by blast
  subgoal by (rule dns_Create_one_wait)
  subgoal using dns_Create_followed [of p z dpayload dclient dplan dresp dcreated rs rid] by blast
  subgoal by (rule dns_Update_one_wait)
  subgoal using dns_Update_followed [of p z rid dupayload dclient dplan dresp] by blast
  subgoal by (rule dns_Delete_one_wait)
  subgoal using dns_Delete_followed [of p z rid dclient dplan dresp] by blast
  done

lemma EqualFold_example: "strings_EqualFold ''Monitoring-Medium-EU01'' ''monitoring-medium-eu01''"
  by (simp add: strings_EqualFold_def toLower_def)

lemma accepting_argus_Create_calls:
  "calls (argus_Create argus_client_accepting
     (argus_Model_zero\<lparr>a_ProjectId := StringValue ''p'',
                       a_PlanName := StringValue ''monitoring-medium-eu01''\<rparr>, [])
     \<lparr>Diagnostics = [], State = None\<rparr>)
   = [GetPlans ''p'',
      CreateInstance ''p'' \<lparr>cip_Name = None, cip_PlanId = Some ''pl-1'', cip_Parameter = Some Map.empty\<rparr>,
      CreateInstanceWaitHandler ''i-1'' ''p'' (20 * time_Minute)]"
  by (simp add: argus_Create_calls argus_Create_send_calls loadPlanId_def argus_client_accepting_def
      argus_Model_zero_def StringValue_def ValueString_def HasError_def Let_def EqualFold_example
      StringPointerValue_def argus_toCreatePayload_def Map_Elements_def ValueStringPointer_def)

lemma accepting_argus_Update_calls:
  "calls (argus_Update argus_client_accepting
     (argus_Model_zero\<lparr>a_ProjectId := StringValue ''p'', a_InstanceId := StringValue ''i-1'',
                       a_PlanName := StringValue ''monitoring-medium-eu01''\<rparr>, [])
     \<lparr>Diagnostics = [], State = None\<rparr>)
   = [GetPlans ''p'',
      UpdateInstance ''i-1'' ''p''
        \<lparr>uip_Name = None, uip_PlanId = Some ''pl-1'', uip_Parameter = Some Map.empty\<rparr>,
      UpdateInstanceWaitHandler ''i-1'' ''p'' (20 * time_Minute)]"
  by (simp add: argus_Update_calls loadPlanId_def argus_client_accepting_def
      argus_Model_zero_def StringValue_def ValueString_def HasError_def Let_def EqualFold_example
      StringPointerValue_def argus_toUpdatePayload_def Map_Elements_def ValueStringPointer_def)

lemma accepting_argus_Delete_calls:
  "calls (argus_Delete argus_client_accepting
     (argus_Model_zero\<lparr>a_ProjectId := StringValue ''p'', a_InstanceId := StringValue ''i-1''\<rparr>, [])
     \<lparr>Diagnostics = [], State = None\<rparr>)
   = [DeleteInstance ''i-1'' ''p'', DeleteInstanceWaitHandler ''i-1'' ''p'' (10 * time_Minute)]"
  by (simp add: argus_Delete_calls argus_client_accepting_def
      argus_Model_zero_def StringValue_def ValueString_def HasError_def)

lemma accepting_dns_Create_calls:
  "calls (dns_Create dns_client_accepting
     (dns_Model_zero\<lparr>d_ZoneId := StringValue ''z'', d_ProjectId := StringValue ''p''\<rparr>, [])
     \<lparr>Diagnostics = [], State = None\<rparr>)
   = [CreateRecordSet ''p'' ''z''
        \<lparr>crp_Comment = None, crp_Name = None, crp_Records = Some [], crp_Ttl = None, crp_Type = None\<rparr>,
      CreateRecordSetWaitHandler ''p'' ''z'' ''rs-1'' (1 * time_Minute)]"
  by (simp add: dns_Create_calls dns_client_accepting_def dns_Model_zero_def StringValue_def
      ValueString_def HasError_def dns_toCreatePayload_def List_Elements_def ValueStringPointer_def
      ToPtrInt32_def RecordSet_zero_def)

lemma accepting_dns_Update_calls:
  "calls (dns_Update dns_client_accepting
     (dns_Model_zero\<lparr>d_RecordSetId := StringValue ''rs-1'', d_ZoneId := StringValue ''z'',
                     d_ProjectId := StringValue ''p''\<rparr>, [])
     \<lparr>Diagnostics = [], State = None\<rparr>)
   = [UpdateRecordSet ''p'' ''z'' ''rs-1''
        \<lparr>urp_Comment = None, urp_Name = None, urp_Records = Some [], urp_Ttl = None\<rparr>,
      UpdateRecordSetWaitHandler ''p'' ''z'' ''rs-1'' (1 * time_Minute),
      GetRecordSet ''p'' ''z'' ''rs-1'']"
  by (simp add: dns_Update_calls dns_client_accepting_def dns_Model_zero_def StringValue_def
      ValueString_def HasError_def dns_toUpdatePayload_def List_Elements_def ValueStringPointer_def
      ToPtrInt32_def)

lemma accepting_dns_Delete_calls:
  "calls (dns_Delete dns_client_accepting
     (dns_Model_zero\<lparr>d_RecordSetId := StringValue ''rs-1'', d_ZoneId := StringValue ''z'',
                     d_ProjectId := StringValue ''p''\<rparr>, [])
     \<lparr>Diagnostics = [], State = None\<rparr>)
   = [DeleteRecordSet ''p'' ''z'' ''rs-1'',
      DeleteRecordSetWaitHandler ''p'' ''z'' ''rs-1'' (1 * time_Minute)]"
  by (simp add: dns_Delete_calls dns_Model_zero_def StringValue_def ValueString_def HasError_def)

theorem wait_handler_follows_async_call_with_fixed_timeout_witness:
  "filter argus_isWait (calls (argus_Create argus_client_accepting
       (argus_Model_zero\<lparr>a_ProjectId := StringValue ''p'',
                         a_PlanName := StringValue ''monitoring-medium-eu01''\<rparr>, [])
       \<lparr>Diagnostics = [], State = None\<rparr>))
     = [CreateInstanceWaitHandler ''i-1'' ''p'' (20 * time_Minute)]
   \<and> filter argus_isWait (calls (argus_Update argus_client_accepting
       (argus_Model_zero\<lparr>a_ProjectId := StringValue ''p'', a_InstanceId := StringValue ''i-1'',
                         a_PlanName := StringValue ''monitoring-medium-eu01''\<rparr>, [])
       \<lparr>Diagnostics = [], State = None\<rparr>))
     = [UpdateInstanceWaitHandler ''i-1'' ''p'' (20 * time_Minute)]
   \<and> filter argus_isWait (calls (argus_Delete argus_client_accepting
       (argus_Model_zero\<lparr>a_ProjectId := StringValue ''p'', a_InstanceId := StringValue ''i-1''\<rparr>, [])
       \<lparr>Diagnostics = [], State = None\<rparr>))
     = [DeleteInstanceWaitHandler ''i-1'' ''p'' (10 * time_Minute)]
   \<and> filter dns_isWait (calls (dns_Create dns_client_accepting
       (dns_Model_zero\<lparr>d_ZoneId := StringValue ''z'', d_ProjectId := StringValue ''p''\<rparr>, [])
       \<lparr>Diagnostics = [], State = None\<rparr>))
     = [CreateRecordSetWaitHandler ''p'' ''z'' ''rs-1'' (1 * time_Minute)]
   \<and> filter dns_isWait (calls (dns_Update dns_client_accepting
       (dns_Model_zero\<lparr>d_RecordSetId := StringValue ''rs-1'', d_ZoneId := StringValue ''z'',
                       d_ProjectId := StringValue ''p''\<rparr>, [])
       \<lparr>Diagnostics = [], State = None\<rparr>))
     = [UpdateRecordSetWaitHandler ''p'' ''z'' ''rs-1'' (1 * time_Minute)]
   \<and> filter dns_isWait (calls (dns_Delete dns_client_accepting
       (dns_Model_zero\<lparr>d_RecordSetId := StringValue ''rs-1'', d_ZoneId := StringValue ''z'',
                       d_ProjectId := StringValue ''p''\<rparr>, [])
       \<lparr>Diagnostics = [], State = None\<rparr>))
     = [DeleteRecordSetWaitHandler ''p'' ''z'' ''rs-1'' (1 * time_Minute)]"
proof -
  let ?R = "\<lparr>Diagnostics = [], State = None\<rparr> :: argus_Model option Response"
  let ?D = "\<lparr>Diagnostics = [], State = None\<rparr> :: dns_Model option Response"
  let ?mc = "argus_Model_zero\<lparr>a_ProjectId := StringValue ''p'',
                         a_PlanName := StringValue ''monitoring-medium-eu01''\<rparr>"
  let ?mu = "argus_Model_zero\<lparr>a_ProjectId := StringValue ''p'', a_InstanceId := StringValue ''i-1'',
                         a_PlanName := StringValue ''monitoring-medium-eu01''\<rparr>"
  let ?md = "argus_Model_zero\<lparr>a_ProjectId := StringValue ''p'', a_InstanceId := StringValue ''i-1''\<rparr>"
  let ?dc = "dns_Model_zero\<lparr>d_ZoneId := StringValue ''z'', d_ProjectId := StringValue ''p''\<rparr>"
  let ?du = "dns_Model_zero\<lparr>d_RecordSetId := StringValue ''rs-1'', d_ZoneId := StringValue ''z'',
                       d_ProjectId := StringValue ''p''\<rparr>"
  have "CreateInstance ''p''
          \<lparr>cip_Name = None, cip_PlanId = Some ''pl-1'', cip_Parameter = Some Map.empty\<rparr>
          \<in> set (calls (argus_Create argus_client_accepting (?mc, []) ?R))"
    by (simp add: accepting_argus_Create_calls)
  moreover have "CreateInstanceExecute argus_client_accepting ''p''
          \<lparr>cip_Name = None, cip_PlanId = Some ''pl-1'', cip_Parameter = Some Map.empty\<rparr>
        = (Some \<lparr>InstanceId = Some ''i-1''\<rparr>, None)"
    by (simp add: argus_client_accepting_def)
  ultimately have a1: "filter argus_isWait (calls (argus_Create argus_client_accepting (?mc, []) ?R))
              = [CreateInstanceWaitHandler ''i-1'' ''p'' (20 * time_Minute)]"
    using wait_handler_follows_async_call_with_fixed_timeout
      [where client = argus_client_accepting and plan = "(?mc, [])" and resp = ?R and p = "''p''"
         and payload = "\<lparr>cip_Name = None, cip_PlanId = Some ''pl-1'', cip_Parameter = Some Map.empty\<rparr>"
         and created = "\<lparr>InstanceId = Some ''i-1''\<rparr>" and i = "''i-1''",
       THEN conjunct2, THEN conjunct1]
    by simp
  have "UpdateInstance ''i-1'' ''p''
          \<lparr>uip_Name = None, uip_PlanId = Some ''pl-1'', uip_Parameter = Some Map.empty\<rparr>
          \<in> set (calls (argus_Update argus_client_accepting (?mu, []) ?R))"
    by (simp add: accepting_argus_Update_calls)
  moreover have "UpdateInstanceExecute argus_client_accepting ''i-1'' ''p''
          \<lparr>uip_Name = None, uip_PlanId = Some ''pl-1'', uip_Parameter = Some Map.empty\<rparr> = None"
    by (simp add: argus_client_accepting_def)
  ultimately have a2: "filter argus_isWait (calls (argus_Update argus_client_accepting (?mu, []) ?R))
              = [UpdateInstanceWaitHandler ''i-1'' ''p'' (20 * time_Minute)]"
    using wait_handler_follows_async_call_with_fixed_timeout
      [where client = argus_client_accepting and plan = "(?mu, [])" and resp = ?R and p = "''p''"
         and upayload = "\<lparr>uip_Name = None, uip_PlanId = Some ''pl-1'', uip_Parameter = Some Map.empty\<rparr>"
         and i = "''i-1''",
       THEN conjunct2, THEN conjunct2, THEN conjunct2, THEN conjunct1]
    by simp
  have "DeleteInstance ''i-1'' ''p'' \<in> set (calls (argus_Delete argus_client_accepting (?md, []) ?R))"
    by (simp add: accepting_argus_Delete_calls)
  moreover have "DeleteInstanceExecute argus_client_accepting ''i-1'' ''p'' = None"
    by (simp add: argus_client_accepting_def)
  ultimately have a3: "filter argus_isWait (calls (argus_Delete argus_client_accepting (?md, []) ?R))
              = [DeleteInstanceWaitHandler ''i-1'' ''p'' (10 * time_Minute)]"
    using wait_handler_follows_async_call_with_fixed_timeout
      [where client = argus_client_accepting and plan = "(?md, [])" and resp = ?R and p = "''p''"
         and i = "''i-1''",
       THEN conjunct2, THEN conjunct2, THEN conjunct2, THEN conjunct2, THEN conjunct2, THEN conjunct1]
    by simp
  have "CreateRecordSet ''p'' ''z''
          \<lparr>crp_Comment = None, crp_Name = None, crp_Records = Some [], crp_Ttl = None, crp_Type = None\<rparr>
          \<in> set (calls (dns_Create dns_client_accepting (?dc, []) ?D))"
    by (simp add: accepting_dns_Create_calls)
  moreover have "CreateRecordSetExecute dns_client_accepting ''p'' ''z''
          \<lparr>crp_Comment = None, crp_Name = None, crp_Records = Some [], crp_Ttl = None, crp_Type = None\<rparr>
        = (Some \<lparr>Rrset = Some (RecordSet_zero\<lparr>rs_Id := Some ''rs-1''\<rparr>)\<rparr>, None)"
    by (simp add: dns_client_accepting_def)
  ultimately have d1: "filter dns_isWait (calls (dns_Create dns_client_accepting (?dc, []) ?D))
              = [CreateRecordSetWaitHandler ''p'' ''z'' ''rs-1'' (1 * time_Minute)]"
    using wait_handler_follows_async_call_with_fixed_timeout
      [where dclient = dns_client_accepting and dplan = "(?dc, [])" and dresp = ?D and p = "''p''"
         and z = "''z''" and rid = "''rs-1''"
         and dpayload = "\<lparr>crp_Comment = None, crp_Name = None, crp_Records = Some [],
                           crp_Ttl = None, crp_Type = None\<rparr>"
         and dcreated = "\<lparr>Rrset = Some (RecordSet_zero\<lparr>rs_Id := Some ''rs-1''\<rparr>)\<rparr>"
         and rs = "RecordSet_zero\<lparr>rs_Id := Some ''rs-1''\<rparr>",
       THEN conjunct2, THEN conjunct2, THEN conjunct2, THEN conjunct2, THEN conjunct2, THEN conjunct2,
       THEN conjunct2, THEN conjunct1]
    by simp
  have "UpdateRecordSet ''p'' ''z'' ''rs-1''
          \<lparr>urp_Comment = None, urp_Name = None, urp_Records = Some [], urp_Ttl = None\<rparr>
          \<in> set (calls (dns_Update dns_client_accepting (?du, []) ?D))"
    by (simp add: accepting_dns_Update_calls)
  moreover have "UpdateRecordSetExecute dns_client_accepting ''p'' ''z'' ''rs-1''
          \<lparr>urp_Comment = None, urp_Name = None, urp_Records = Some [], urp_Ttl = None\<rparr> = None"
    by (simp add: dns_client_accepting_def)
  ultimately have d2: "filter dns_isWait (calls (dns_Update dns_client_accepting (?du, []) ?D))
              = [UpdateRecordSetWaitHandler ''p'' ''z'' ''rs-1'' (1 * time_Minute)]"
    using wait_handler_follows_async_call_with_fixed_timeout
      [where dclient = dns_client_accepting and dplan = "(?du, [])" and dresp = ?D and p = "''p''"
         and z = "''z''" and rid = "''rs-1''"
         and dupayload = "\<lparr>urp_Comment = None, urp_Name = None, urp_Records = Some [], urp_Ttl = None\<rparr>",
       THEN conjunct2, THEN conjunct2, THEN conjunct2, THEN conjunct2, THEN conjunct2, THEN conjunct2,
       THEN conjunct2, THEN conjunct2, THEN conjunct2, THEN conjunct1]
    by simp
  have "DeleteRecordSet ''p'' ''z'' ''rs-1'' \<in> set (calls (dns_Delete dns_client_accepting (?du, []) ?D))"
    by (simp add: accepting_dns_Delete_calls)
  moreover have "DeleteRecordSetExecute dns_client_accepting ''p'' ''z'' ''rs-1'' = None"
    by (simp add: dns_client_accepting_def)
  ultimately have d3: "filter dns_isWait (calls (dns_Delete dns_client_accepting (?du, []) ?D))
              = [DeleteRecordSetWaitHandler ''p'' ''z'' ''rs-1'' (1 * time_Minute)]"
    using wait_handler_follows_async_call_with_fixed_timeout
      [where dclient = dns_client_accepting and dplan = "(?du, [])" and dresp = ?D and p = "''p''"
         and z = "''z''" and rid = "''rs-1''",
       THEN conjunct2, THEN conjunct2, THEN conjunct2, THEN conjunct2, THEN conjunct2, THEN conjunct2,
       THEN conjunct2, THEN conjunct2, THEN conjunct2, THEN conjunct2, THEN conjunct2]
    by simp
  from a1 a2 a3 d1 d2 d3 show ?thesis by blast
qed

end
